theory Spec2Isabelle
  imports Main "HOL-Library.Sublist"
begin

section \<open>Values shared by the transfer types\<close>

text \<open>
  A thrown JavaScript exception is a value: its class (the source tests
  \<^verbatim>\<open>instanceof SearchError\<close> and \<^verbatim>\<open>instanceof TxValidationError\<close>) and its
  message. Every function that can throw returns \<open>error + 'a\<close>, with \<open>Inl\<close> the exception
  that reaches the caller.
\<close>

datatype error_class = Error | TypeError | SearchError | TxValidationError

datatype error = Thrown error_class string

fun message :: "error \<Rightarrow> string" where
  "message (Thrown c m) = m"

fun error_class_of :: "error \<Rightarrow> error_class" where
  "error_class_of (Thrown c m) = c"

text \<open>
  Modelled from the spec: the module \<^verbatim>\<open>@near-eth/client/dist/statuses\<close> is not among the
  sources; the data model gives the status as the enumeration
  ActionNeeded, InProgress, Complete, Failed.
\<close>

datatype transfer_status = ACTION_NEEDED | IN_PROGRESS | COMPLETE | FAILED

text \<open>\<^verbatim>\<open>const last = arr => arr[arr.length - 1]\<close>: \<^verbatim>\<open>undefined\<close> on the empty array.\<close>

definition last_js :: "'a list \<Rightarrow> 'a option" where
  "last_js arr = (if arr = [] then None else Some (arr ! (length arr - 1)))"

text \<open>\<^verbatim>\<open>String.prototype.slice(begin, end)\<close> and \<^verbatim>\<open>slice(begin)\<close>, negative indices counted
  from the end.\<close>

definition js_index :: "nat \<Rightarrow> int \<Rightarrow> nat" where
  "js_index len i = (if i < 0 then nat (max (int len + i) 0) else min (nat i) len)"

definition js_slice :: "string \<Rightarrow> int \<Rightarrow> int \<Rightarrow> string" where
  "js_slice s b e =
     (let from = js_index (length s) b; to = js_index (length s) e
      in take (to - from) (drop from s))"

definition js_slice_from :: "string \<Rightarrow> int \<Rightarrow> string" where
  "js_slice_from s b = drop (js_index (length s) b) s"

text \<open>\<^verbatim>\<open>String.prototype.split(':')\<close> with a one-character separator.\<close>

fun split_on :: "char \<Rightarrow> string \<Rightarrow> string list" where
  "split_on c [] = [[]]"
| "split_on c (x # xs) =
     (if x = c then [] # split_on c xs
      else (case split_on c xs of [] \<Rightarrow> [[x]] | y # ys \<Rightarrow> (x # y) # ys))"

text \<open>\<^verbatim>\<open>toLowerCase()\<close> on the ASCII letters (addresses are hexadecimal text).\<close>

definition lower_char :: "char \<Rightarrow> char" where
  "lower_char c =
     (if (65::nat) \<le> of_char c \<and> of_char c \<le> (90::nat)
      then char_of (of_char c + (32::nat)) else c)"

definition toLowerCase :: "string \<Rightarrow> string" where
  "toLowerCase s = map lower_char s"

text \<open>The character classes \<^verbatim>\<open>[a-f0-9]\<close> and \<^verbatim>\<open>[A-Fa-f0-9]\<close>, and the two anchored
  patterns built from them.\<close>

definition is_lower_hex :: "char \<Rightarrow> bool" where
  "is_lower_hex c \<longleftrightarrow> c \<in> set ''0123456789abcdef''"

definition is_hex :: "char \<Rightarrow> bool" where
  "is_hex c \<longleftrightarrow> c \<in> set ''0123456789abcdefABCDEF''"

definition test_lower_hex40 :: "string \<Rightarrow> bool" where
  "test_lower_hex40 s \<longleftrightarrow> length s = 40 \<and> list_all is_lower_hex s"

definition test_hex40 :: "string \<Rightarrow> bool" where
  "test_hex40 s \<longleftrightarrow> length s = 40 \<and> list_all is_hex s"

text \<open>The attributes common to all transfer types (the first block of \<^verbatim>\<open>transferDraft\<close>
  and of the \<^verbatim>\<open>Transfer\<close> interface). \<^verbatim>\<open>completedStep\<close> is \<^verbatim>\<open>null\<close> or a step name.\<close>

record transfer =
  transfer_id :: string
  amount :: string
  completedStep :: "string option"
  destinationTokenName :: string
  errors :: "string list"
  recipient :: string
  sender :: string
  sourceToken :: "string option"
  sourceTokenName :: string
  symbol :: string
  decimals :: int
  status :: transfer_status
  transfer_type :: string
  lockHashes :: "string list"

text \<open>The position of a completed step in a protocol's step list, \<^verbatim>\<open>null\<close> before all
  of them; a value that is no step of the protocol has no position.\<close>

fun index_of :: "'a \<Rightarrow> 'a list \<Rightarrow> nat option" where
  "index_of x [] = None"
| "index_of x (y # ys) =
     (if x = y then Some 0 else map_option Suc (index_of x ys))"

definition step_pos :: "string list \<Rightarrow> string option \<Rightarrow> nat option" where
  "step_pos steps s =
     (case s of None \<Rightarrow> Some 0 | Some x \<Rightarrow> map_option Suc (index_of x steps))"

definition step_lt :: "string list \<Rightarrow> string option \<Rightarrow> string option \<Rightarrow> bool" where
  "step_lt steps a b =
     (case step_pos steps a of
        None \<Rightarrow> False
      | Some i \<Rightarrow> (case step_pos steps b of None \<Rightarrow> False | Some j \<Rightarrow> i < j))"

datatype call = Act | CheckStatus

section \<open>Ether to Aurora: lock, sync, mint\<close>

definition TRANSFER_TYPE :: string where
  "TRANSFER_TYPE = ''@near-eth/aurora-ether/natural-ether/sendToAurora''"

definition LOCK :: string where
  "LOCK = ''lock-natural-ether-to-aurora''"

definition SYNC :: string where
  "SYNC = ''sync-natural-ether-to-aurora''"

definition MINT :: string where
  "MINT = ''mint-natural-ether-to-aurora''"

definition steps :: "string list" where
  "steps = [LOCK, SYNC, MINT]"

record receipt =
  blockNumber :: int
  receipt_status :: bool
  transactionHash :: string

record eth_cache =
  cache_from :: string
  cache_to :: string
  cache_nonce :: int
  cache_data :: string
  safeReorgHeight :: int

record eth_transfer = transfer +
  ethCache :: "eth_cache option"
  completedConfirmations :: int
  lockReceipts :: "receipt list"
  neededConfirmations :: int
  mintHashes :: "string list"

text \<open>The transaction a lock was broadcast as (\<^verbatim>\<open>web3.eth.getTransaction\<close>), the identity
  handed to the replacement finder, the transaction it finds, and a \<^verbatim>\<open>Deposited\<close> event.\<close>

record pending_tx =
  tx_from :: string
  tx_to :: string
  tx_nonce :: int
  tx_input :: string

record tx_identity =
  q_nonce :: int
  q_from :: string
  q_to :: string
  q_data :: string

record found_tx =
  tx_hash :: string

record deposited_event =
  ev_transactionHash :: string
  ev_sender :: string
  ev_recipient :: string
  ev_amount :: string

text \<open>
  The collaborators of the module, as one snapshot of the two chains: the Ethereum
  provider (\<^verbatim>\<open>web3.eth\<close>), the custodian contract, the imported replacement finder,
  revert-reason lookup, the light-client height, the proof builder and the used-proof
  registry of the Aurora engine, with the configuration read from \<^verbatim>\<open>process.env\<close>.
  Each call either returns or throws. A hash argument is optional where the source can
  pass \<^verbatim>\<open>undefined\<close> (\<^verbatim>\<open>last\<close> of an empty array).
\<close>

record eth_env =
  ethNetworkId :: string
  auroraEvmAccount :: string
  getNetworkType :: "error + string"
  getBlockNumber :: "error + int"
  depositToEVM :: "string \<Rightarrow> string \<Rightarrow> string \<Rightarrow> string \<Rightarrow> error + string"
  getTransaction :: "string \<Rightarrow> error + pending_tx option"
  getTransactionReceipt :: "string option \<Rightarrow> error + receipt option"
  findReplacementTx :: "int \<Rightarrow> tx_identity \<Rightarrow> error + found_tx option"
  getRevertReason :: "string option \<Rightarrow> string \<Rightarrow> error + string"
  getPastEvents :: "int \<Rightarrow> int \<Rightarrow> error + deposited_event list"
  ethOnNearSyncHeight :: "error + int"
  findProof :: "string \<Rightarrow> error + string"
  getNearAccount :: "error + unit"
  is_used_proof :: "string \<Rightarrow> error + bool"

definition undefined_property :: "string \<Rightarrow> error" where
  "undefined_property p =
     Thrown TypeError (''Cannot read properties of undefined (reading '' @ p @ '')'')"

text \<open>\<^verbatim>\<open>lock\<close>: broadcast the deposit and record its hash and the cache used to find a
  replacement. The arguments of \<open>depositToEVM\<close> are the sender, the recipient without its
  prefix in lower case, the fee and the value.\<close>

definition lock :: "eth_env \<Rightarrow> eth_transfer \<Rightarrow> error + eth_transfer" where
  "lock env transfer =
     (case getNetworkType env of
        Inl e \<Rightarrow> Inl e
      | Inr ethNetwork \<Rightarrow>
          if ethNetwork \<noteq> ethNetworkId env
          then Inl (Thrown Error ''Wrong eth network for checkLock, expected: %s, got: %s'')
          else
            (case getBlockNumber env of
               Inl e \<Rightarrow> Inl e
             | Inr height \<Rightarrow>
                 let safeReorgHeight = height - 20 in
                 (case depositToEVM env (sender transfer)
                         (toLowerCase (js_slice_from (recipient transfer) 2)) ''0''
                         (amount transfer) of
                    Inl e \<Rightarrow> Inl e
                  | Inr lockHash \<Rightarrow>
                      (case getTransaction env lockHash of
                         Inl e \<Rightarrow> Inl e
                       | Inr None \<Rightarrow> Inl (undefined_property ''from'')
                       | Inr (Some pendingLockTx) \<Rightarrow>
                           Inr (transfer
                             \<lparr> status := IN_PROGRESS,
                               ethCache := Some
                                 \<lparr> cache_from = tx_from pendingLockTx,
                                   cache_to = tx_to pendingLockTx,
                                   cache_nonce = tx_nonce pendingLockTx,
                                   cache_data = tx_input pendingLockTx,
                                   safeReorgHeight = safeReorgHeight \<rparr>,
                               lockHashes := lockHashes transfer @ [lockHash] \<rparr>)))))"

text \<open>The \<^verbatim>\<open>try\<close> block of \<^verbatim>\<open>checkLock\<close>, entered when the lock hash has no receipt:
  what it evaluates to, before the \<^verbatim>\<open>catch\<close>. \<open>Inr None\<close> is \<^verbatim>\<open>return transfer\<close>.\<close>

definition replacementReceipt ::
  "eth_env \<Rightarrow> eth_transfer \<Rightarrow> error + (receipt option) option" where
  "replacementReceipt env transfer =
     (case ethCache transfer of
        None \<Rightarrow> Inl (undefined_property ''nonce'')
      | Some c \<Rightarrow>
          let tx = \<lparr> q_nonce = cache_nonce c, q_from = cache_from c,
                     q_to = cache_to c, q_data = cache_data c \<rparr> in
          (case findReplacementTx env (safeReorgHeight c) tx of
             Inl e \<Rightarrow> Inl e
           | Inr None \<Rightarrow> Inr None
           | Inr (Some foundTx) \<Rightarrow>
               (case getTransactionReceipt env (Some (tx_hash foundTx)) of
                  Inl e \<Rightarrow> Inl e
                | Inr lockReceipt \<Rightarrow> Inr (Some lockReceipt))))"

text \<open>The part of \<^verbatim>\<open>checkLock\<close> after the receipt lookup, from
  \<^verbatim>\<open>if (!lockReceipt) return transfer\<close> on.\<close>

definition checkLockReceipt ::
  "eth_env \<Rightarrow> eth_transfer \<Rightarrow> string option \<Rightarrow> string \<Rightarrow> receipt option
     \<Rightarrow> error + eth_transfer" where
  "checkLockReceipt env transfer lockHash ethNetwork r =
     (case r of
        None \<Rightarrow> Inr transfer
      | Some lockReceipt \<Rightarrow>
          if \<not> receipt_status lockReceipt then
            let error = (case getRevertReason env lockHash ethNetwork of
                           Inr reason \<Rightarrow> reason
                         | Inl e \<Rightarrow>
                             ''Could not determine why transaction failed; encountered error: ''
                               @ message e)
            in Inr (transfer
                 \<lparr> status := FAILED,
                   errors := errors transfer @ [error],
                   lockReceipts := lockReceipts transfer @ [lockReceipt] \<rparr>)
          else
            let transfer' =
                  (if Some (transactionHash lockReceipt) \<noteq> lockHash
                   then transfer
                     \<lparr> lockHashes := lockHashes transfer @ [transactionHash lockReceipt] \<rparr>
                   else transfer)
            in Inr (transfer'
                 \<lparr> status := IN_PROGRESS,
                   completedStep := Some LOCK,
                   lockReceipts := lockReceipts transfer' @ [lockReceipt] \<rparr>))"

definition checkLock :: "eth_env \<Rightarrow> eth_transfer \<Rightarrow> error + eth_transfer" where
  "checkLock env transfer =
     (let lockHash = last_js (lockHashes transfer) in
      case getNetworkType env of
        Inl e \<Rightarrow> Inl e
      | Inr ethNetwork \<Rightarrow>
          if ethNetwork \<noteq> ethNetworkId env then Inr transfer
          else
            (case getTransactionReceipt env lockHash of
               Inl e \<Rightarrow> Inl e
             | Inr (Some lockReceipt) \<Rightarrow>
                 checkLockReceipt env transfer lockHash ethNetwork (Some lockReceipt)
             | Inr None \<Rightarrow>
                 (case replacementReceipt env transfer of
                    Inl error \<Rightarrow>
                      if error_class_of error = SearchError
                           \<or> error_class_of error = TxValidationError
                      then Inr (transfer
                             \<lparr> errors := errors transfer @ [message error],
                               status := FAILED \<rparr>)
                      else Inl error
                  | Inr None \<Rightarrow> Inr transfer
                  | Inr (Some lockReceipt) \<Rightarrow>
                      checkLockReceipt env transfer lockHash ethNetwork lockReceipt)))"

definition checkSync :: "eth_env \<Rightarrow> eth_transfer \<Rightarrow> error + eth_transfer" where
  "checkSync env transfer =
     (case last_js (lockReceipts transfer) of
        None \<Rightarrow> Inl (undefined_property ''blockNumber'')
      | Some lockReceipt \<Rightarrow>
          let eventEmittedAt = blockNumber lockReceipt in
          (case ethOnNearSyncHeight env of
             Inl e \<Rightarrow> Inl e
           | Inr syncedTo \<Rightarrow>
               let completedConfirmations' = max 0 (syncedTo - eventEmittedAt);
                   inProgress = transfer
                     \<lparr> completedConfirmations := completedConfirmations',
                       status := IN_PROGRESS \<rparr>
               in
               if completedConfirmations' > neededConfirmations transfer then
                 (case findProof env (transactionHash lockReceipt) of
                    Inl e \<Rightarrow> Inl e
                  | Inr prf \<Rightarrow>
                      (case getNearAccount env of
                         Inl e \<Rightarrow> Inl e
                       | Inr nearAccount \<Rightarrow>
                           (case is_used_proof env prf of
                              Inl e \<Rightarrow> Inl e
                            | Inr proofAlreadyUsed \<Rightarrow>
                                if proofAlreadyUsed then
                                  Inr (transfer
                                    \<lparr> completedStep := Some MINT,
                                      completedConfirmations := completedConfirmations',
                                      status := COMPLETE,
                                      errors := errors transfer
                                        @ [''Transfer already finalized.''] \<rparr>)
                                else Inr inProgress)))
               else Inr inProgress))"

text \<open>The two entry points dispatch on \<^verbatim>\<open>completedStep\<close>; the \<^verbatim>\<open>default\<close> branch throws.\<close>

definition act :: "eth_env \<Rightarrow> eth_transfer \<Rightarrow> error + eth_transfer" where
  "act env transfer =
     (case completedStep transfer of
        None \<Rightarrow> lock env transfer
      | Some s \<Rightarrow>
          if s = LOCK then checkSync env transfer
          else Inl (Thrown Error
                 (''Don't know how to act on transfer: '' @ transfer_id transfer)))"

definition checkStatus :: "eth_env \<Rightarrow> eth_transfer \<Rightarrow> error + eth_transfer" where
  "checkStatus env transfer =
     (case completedStep transfer of
        None \<Rightarrow> checkLock env transfer
      | Some s \<Rightarrow>
          if s = LOCK then checkSync env transfer
          else Inl (Thrown Error
                 (''Don't know how to checkStatus for transfer '' @ transfer_id transfer)))"

text \<open>
  \<^verbatim>\<open>recover\<close>: rebuild a transfer from a lock transaction hash. \<open>now\<close> is what
  \<^verbatim>\<open>new Date().toISOString()\<close> returns when the record is built: the clock is not part of
  the chains' state. The protocol message is split at its colons; the first two parts are
  the account and the recipient, and a missing second part (\<^verbatim>\<open>undefined\<close>) fails the
  pattern of the recipient.
\<close>

definition recover :: "eth_env \<Rightarrow> string \<Rightarrow> string \<Rightarrow> error + eth_transfer" where
  "recover env now lockTxHash =
     (case getTransactionReceipt env (Some lockTxHash) of
        Inl e \<Rightarrow> Inl e
      | Inr None \<Rightarrow> Inl (undefined_property ''blockNumber'')
      | Inr (Some receipt) \<Rightarrow>
          (case getPastEvents env (blockNumber receipt) (blockNumber receipt) of
             Inl e \<Rightarrow> Inl e
           | Inr events \<Rightarrow>
               (case find (\<lambda>event. ev_transactionHash event = lockTxHash) events of
                  None \<Rightarrow> Inl (Thrown Error ''Unable to process lock transaction event.'')
                | Some lockedEvent \<Rightarrow>
                    let sender' = ev_sender lockedEvent;
                        protocolMessage = ev_recipient lockedEvent;
                        parts = split_on CHR '':'' protocolMessage
                    in
                    (case parts of
                       [] \<Rightarrow>
                         Inl (Thrown Error
                           ''Failed to parse auroraEvmAccount in protocol message'')
                     | auroraEvmAccount' # rest \<Rightarrow>
                         if auroraEvmAccount' \<noteq> auroraEvmAccount env
                         then Inl (Thrown Error
                                ''Failed to parse auroraEvmAccount in protocol message'')
                         else
                           (case rest of
                              [] \<Rightarrow>
                                Inl (Thrown Error
                                  ''Failed to parse recipient in protocol message'')
                            | auroraRecipient # others \<Rightarrow>
                                if \<not> test_hex40 auroraRecipient
                                then Inl (Thrown Error
                                       ''Failed to parse recipient in protocol message'')
                                else
                                  let sourceTokenName' = ''ETH'' in
                                  checkSync env
                                    \<lparr> transfer_id = now,
                                      amount = ev_amount lockedEvent,
                                      completedStep = Some LOCK,
                                      destinationTokenName = ''a'' @ sourceTokenName',
                                      errors = [],
                                      recipient = ''0x'' @ auroraRecipient,
                                      sender = sender',
                                      sourceToken = None,
                                      sourceTokenName = sourceTokenName',
                                      symbol = ''ETH'',
                                      decimals = 18,
                                      status = IN_PROGRESS,
                                      transfer_type = TRANSFER_TYPE,
                                      lockHashes = [lockTxHash],
                                      ethCache = None,
                                      completedConfirmations = 0,
                                      lockReceipts = [receipt],
                                      neededConfirmations = 20,
                                      mintHashes = [] \<rparr>)))))"

text \<open>
  The scheduler that polls a transfer is outside the module. A sequence of its calls is
  a list of entry points, each with the state of the chains at that call; an exception
  ends the sequence, as it reaches the caller.
\<close>

fun run_calls :: "(call \<times> eth_env) list \<Rightarrow> eth_transfer \<Rightarrow> error + eth_transfer" where
  "run_calls [] transfer = Inr transfer"
| "run_calls ((c, env) # cs) transfer =
     (case (case c of Act \<Rightarrow> act env transfer | CheckStatus \<Rightarrow> checkStatus env transfer) of
        Inl e \<Rightarrow> Inl e
      | Inr transfer' \<Rightarrow> run_calls cs transfer')"

section \<open>NEP-141 to Aurora: a single lock step\<close>

definition TRANSFER_TYPE_nep141 :: string where
  "TRANSFER_TYPE_nep141 = ''@near-eth/aurora-nep141/natural-nep141/sendToAurora''"

definition LOCK_nep141 :: string where
  "LOCK_nep141 = ''lock-natural-nep141-to-aurora''"

text \<open>The module names one step; its step list is that step alone.\<close>

definition steps_nep141 :: "string list" where
  "steps_nep141 = [LOCK_nep141]"

record near_transfer = transfer +
  startTime :: string

text \<open>
  Modelled from the spec: the module \<^verbatim>\<open>url-params\<close> of the utilities package is not
  among the sources (only its re-export is). The specification describes it as the URL
  parameters used as a side channel for the completion of the wallet redirect: a table
  from parameter names to text, read with \<^verbatim>\<open>get\<close>, written with \<^verbatim>\<open>set\<close>, and emptied
  of the given names with \<^verbatim>\<open>clear\<close>.
\<close>

type_synonym url_params = "string \<rightharpoonup> string"

definition urlParams_get :: "url_params \<Rightarrow> string \<Rightarrow> string option" where
  "urlParams_get params k = params k"

definition urlParams_set :: "url_params \<Rightarrow> string \<Rightarrow> string \<Rightarrow> url_params" where
  "urlParams_set params k v = params(k \<mapsto> v)"

definition urlParams_clear :: "url_params \<Rightarrow> string list \<Rightarrow> url_params" where
  "urlParams_clear params ks = (\<lambda>k. if k \<in> set ks then None else params k)"

text \<open>The truth value JavaScript gives an optional text: \<^verbatim>\<open>null\<close> and the empty
  text are false.\<close>

definition truthy :: "string option \<Rightarrow> bool" where
  "truthy v = (case v of None \<Rightarrow> False | Some s \<Rightarrow> s \<noteq> [])"

text \<open>\<^verbatim>\<open>new BN(text)\<close> for a text of decimal digits.\<close>

definition BN :: "string \<Rightarrow> int" where
  "BN s = foldl (\<lambda>n c. 10 * n + (int (of_char c) - 48)) 0 s"

text \<open>What the module sends to NEAR: the arguments of a contract call, a function-call
  action of a transaction, and a direct call of \<^verbatim>\<open>ft_transfer_call\<close>.\<close>

datatype call_args =
    StorageDeposit string bool
  | NearDeposit
  | FtTransferCall string string string

record function_call_action =
  fca_methodName :: string
  fca_args :: call_args
  fca_gas :: int
  fca_deposit :: int

record function_call =
  fc_contractId :: "string option"
  fc_methodName :: string
  fc_args :: call_args
  fc_gas :: int
  fc_attachedDeposit :: int

text \<open>What the module reads of a transaction status (\<^verbatim>\<open>status.SuccessValue\<close>, absent
  unless the transaction succeeded, and \<^verbatim>\<open>transaction_outcome.block_hash\<close>), of an
  indexed transaction and of an indexed action receipt.\<close>

record tx_status =
  SuccessValue :: "string option"
  block_hash :: string

record indexed_tx =
  originated_from_transaction_hash :: string
  method_name :: string
  args_msg :: string
  args_amount :: string
  args_receiver_id :: string

record action_receipt =
  included_in_block_timestamp :: string
  receipt_predecessor_account_id :: string
  ar_method_name :: string
  ar_msg :: string
  ar_amount :: string
  ar_sender_id :: string

record metadata =
  md_symbol :: string
  md_decimals :: int

text \<open>A NEAR account object: its calls and views, and its provider's \<^verbatim>\<open>txStatus\<close> and
  \<^verbatim>\<open>block\<close> (of which the module reads \<^verbatim>\<open>header.timestamp\<close>). The three views are
  \<^verbatim>\<open>storage_balance_bounds\<close> (its \<^verbatim>\<open>min\<close>), \<^verbatim>\<open>storage_minimum_balance\<close> and
  \<^verbatim>\<open>storage_balance_of\<close> (its \<^verbatim>\<open>total\<close>, or \<^verbatim>\<open>null\<close>).\<close>

record near_account =
  accountId :: string
  functionCall :: "function_call \<Rightarrow> error + string"
  signAndSendTransaction :: "string \<Rightarrow> function_call_action list \<Rightarrow> error + string"
  storage_balance_bounds :: "string \<Rightarrow> error + string"
  storage_minimum_balance :: "string \<Rightarrow> error + string"
  storage_balance_of :: "string \<Rightarrow> string \<Rightarrow> error + string option"
  txStatus :: "string \<Rightarrow> string \<Rightarrow> error + tx_status"
  block :: "string \<Rightarrow> error + int"

record options =
  opt_nearAccount :: "near_account option"
  opt_auroraEvmAccount :: "string option"
  opt_wNearNep141 :: "string option"
  opt_decimals :: "int option"
  opt_symbol :: "string option"

definition no_options :: options where
  "no_options =
     \<lparr> opt_nearAccount = None, opt_auroraEvmAccount = None, opt_wNearNep141 = None,
       opt_decimals = None, opt_symbol = None \<rparr>"

text \<open>
  The collaborators of the module that are not passed as arguments: whether a browser
  window exists, the bridge parameters, the logged-in account, the tracker of the client
  package, the metadata lookup and the query builder (none of them among the sources),
  and the library functions \<^verbatim>\<open>base_decode\<close>, \<^verbatim>\<open>JSON.stringify\<close>,
  \<^verbatim>\<open>Buffer.from(_, 'base64').toString()\<close>, \<^verbatim>\<open>new RegExp(_).test(_)\<close>, and
  \<^verbatim>\<open>new Date(_ / 10 ** 6).toISOString()\<close> of a number and of
  \<^verbatim>\<open>Number(_)\<close> of a text.
\<close>

record near_env =
  window :: bool
  bridge_auroraEvmAccount :: string
  bridge_wNearNep141 :: string
  getNearAccount_near :: "error + near_account"
  track :: "near_transfer \<Rightarrow> error + near_transfer"
  getMetadata :: "string \<Rightarrow> options \<Rightarrow> error + metadata"
  buildIndexerTxQuery :: "string \<Rightarrow> string \<Rightarrow> string \<Rightarrow> string \<Rightarrow> string"
  base_decode :: "string \<Rightarrow> error + string"
  JSON_stringify :: "near_transfer \<Rightarrow> string"
  JSON_stringify_receipts :: "action_receipt list \<Rightarrow> string"
  base64_toString :: "string \<Rightarrow> string"
  RegExp_test :: "string \<Rightarrow> string \<Rightarrow> bool"
  toISOString :: "int \<Rightarrow> error + string"
  toISOString_Number :: "string \<Rightarrow> error + string"

text \<open>\<^verbatim>\<open>options.nearAccount ?? await getNearAccount()\<close>.\<close>

definition nearAccount_of :: "near_env \<Rightarrow> options \<Rightarrow> error + near_account" where
  "nearAccount_of env options =
     (case opt_nearAccount options of
        Some account \<Rightarrow> Inr account
      | None \<Rightarrow> getNearAccount_near env)"

definition auroraEvmAccount_of :: "near_env \<Rightarrow> options \<Rightarrow> string" where
  "auroraEvmAccount_of env options =
     (case opt_auroraEvmAccount options of
        Some account \<Rightarrow> account
      | None \<Rightarrow> bridge_auroraEvmAccount env)"

text \<open>The two statements shared by \<^verbatim>\<open>lock\<close> and \<^verbatim>\<open>lockNear\<close> before the transaction is
  sent: with a window, remember the transfer in the URL and track it as in progress.\<close>

definition set_locking :: "near_env \<Rightarrow> url_params \<Rightarrow> near_transfer \<Rightarrow> url_params" where
  "set_locking env params transfer =
     (if window env then urlParams_set params ''locking'' (transfer_id transfer) else params)"

definition track_in_progress :: "near_env \<Rightarrow> near_transfer \<Rightarrow> error + near_transfer" where
  "track_in_progress env transfer =
     (if window env then track env (transfer \<lparr> status := IN_PROGRESS \<rparr>) else Inr transfer)"

text \<open>\<^verbatim>\<open>lock\<close>: the functions of this module return the result together with the URL
  parameters they leave behind.\<close>

definition lock_nep141 ::
  "near_env \<Rightarrow> url_params \<Rightarrow> near_transfer \<Rightarrow> options
     \<Rightarrow> (error + near_transfer) \<times> url_params" where
  "lock_nep141 env params transfer options =
     (case nearAccount_of env options of
        Inl e \<Rightarrow> (Inl e, params)
      | Inr nearAccount \<Rightarrow>
          let auroraEvmAccount' = auroraEvmAccount_of env options;
              msgPrefix =
                (if sourceToken transfer = Some auroraEvmAccount'
                 then sender transfer @ '':'' @ replicate 64 CHR ''0'' else '''');
              params' = set_locking env params transfer
          in
          (case track_in_progress env transfer of
             Inl e \<Rightarrow> (Inl e, params')
           | Inr transfer' \<Rightarrow>
               (case functionCall nearAccount
                       \<lparr> fc_contractId = sourceToken transfer',
                         fc_methodName = ''ft_transfer_call'',
                         fc_args = FtTransferCall auroraEvmAccount' (amount transfer')
                           (msgPrefix @ js_slice_from (toLowerCase (recipient transfer')) 2),
                         fc_gas = 70 * 10 ^ 12,
                         fc_attachedDeposit = 1 \<rparr> of
                  Inl e \<Rightarrow> (Inl e, params')
                | Inr hash \<Rightarrow> (Inr (transfer' \<lparr> lockHashes := [hash] \<rparr>), params'))))"

definition getMinStorageBalance :: "string \<Rightarrow> near_account \<Rightarrow> error + string" where
  "getMinStorageBalance nep141Address nearAccount =
     (case storage_balance_bounds nearAccount nep141Address of
        Inr balance_min \<Rightarrow> Inr balance_min
      | Inl e \<Rightarrow> storage_minimum_balance nearAccount nep141Address)"

definition getStorageBalance :: "string \<Rightarrow> string \<Rightarrow> near_account \<Rightarrow> string option" where
  "getStorageBalance nep141Address accountId' nearAccount =
     (case storage_balance_of nearAccount nep141Address accountId' of
        Inr balance \<Rightarrow> balance
      | Inl e \<Rightarrow> None)"

definition lockNear ::
  "near_env \<Rightarrow> url_params \<Rightarrow> near_transfer \<Rightarrow> options
     \<Rightarrow> (error + near_transfer) \<times> url_params" where
  "lockNear env params transfer options =
     (case nearAccount_of env options of
        Inl e \<Rightarrow> (Inl e, params)
      | Inr nearAccount \<Rightarrow>
          let wNearNep141 =
                (case opt_wNearNep141 options of
                   Some a \<Rightarrow> a | None \<Rightarrow> bridge_wNearNep141 env);
              auroraEvmAccount' = auroraEvmAccount_of env options
          in
          (case getMinStorageBalance wNearNep141 nearAccount of
             Inl e \<Rightarrow> (Inl e, params)
           | Inr minStorageBalance \<Rightarrow>
               let userStorageBalance =
                     getStorageBalance wNearNep141 (sender transfer) nearAccount;
                   actions =
                     (if (case userStorageBalance of
                            None \<Rightarrow> True
                          | Some total' \<Rightarrow> BN total' < BN minStorageBalance)
                      then [\<lparr> fca_methodName = ''storage_deposit'',
                               fca_args = StorageDeposit (sender transfer) True,
                               fca_gas = 50 * 10 ^ 12,
                               fca_deposit = BN minStorageBalance \<rparr>]
                      else [])
                     @ [\<lparr> fca_methodName = ''near_deposit'',
                          fca_args = NearDeposit,
                          fca_gas = 30 * 10 ^ 12,
                          fca_deposit = BN (amount transfer) \<rparr>,
                        \<lparr> fca_methodName = ''ft_transfer_call'',
                          fca_args = FtTransferCall auroraEvmAccount' (amount transfer)
                            (js_slice_from (toLowerCase (recipient transfer)) 2),
                          fca_gas = 70 * 10 ^ 12,
                          fca_deposit = 1 \<rparr>];
                   params' = set_locking env params transfer
               in
               (case track_in_progress env transfer of
                  Inl e \<Rightarrow> (Inl e, params')
                | Inr transfer' \<Rightarrow>
                    (case signAndSendTransaction nearAccount wNearNep141 actions of
                       Inl e \<Rightarrow> (Inl e, params')
                     | Inr hash \<Rightarrow>
                         (Inr (transfer' \<lparr> lockHashes := [hash] \<rparr>), params')))))"

text \<open>\<^verbatim>\<open>checkLock\<close>: read the outcome of the wallet redirect from the URL.\<close>

definition clearParams :: "string list" where
  "clearParams = [''locking'', ''transactionHashes'', ''errorCode'', ''errorMessage'']"

definition checkLock_nep141 ::
  "near_env \<Rightarrow> url_params \<Rightarrow> near_transfer \<Rightarrow> options
     \<Rightarrow> (error + near_transfer) \<times> url_params" where
  "checkLock_nep141 env params transfer options =
     (let id' = urlParams_get params ''locking'';
          txHash = urlParams_get params ''transactionHashes'';
          errorCode = urlParams_get params ''errorCode''
      in
      if \<not> truthy id' then
        let newError = ''Failed to process NEAR Wallet transaction.''
        in (Inr (transfer \<lparr> status := FAILED, errors := [newError] \<rparr>), params)
      else if id' \<noteq> Some (transfer_id transfer) then
        let newError = ''Couldn't determine transaction outcome.'' @ [CHR 0x0A]
              @ ''      Got transfer id '' @ [CHR 0x27] @ the id'
              @ '' in URL, expected '' @ [CHR 0x27] @ transfer_id transfer
        in (Inr (transfer \<lparr> status := FAILED, errors := [''Failed: '' @ newError] \<rparr>),
            params)
      else if truthy errorCode then
        (Inr (transfer \<lparr> status := FAILED, errors := [''Failed: '' @ the errorCode] \<rparr>),
         urlParams_clear params clearParams)
      else if \<not> truthy txHash then (Inr transfer, params)
      else
        (case nearAccount_of env options of
           Inl e \<Rightarrow> (Inl e, params)
         | Inr nearAccount \<Rightarrow>
             (case base_decode env (the txHash) of
                Inl e \<Rightarrow> (Inl e, params)
              | Inr decodedTxHash \<Rightarrow>
                  (case txStatus nearAccount decodedTxHash (sender transfer) of
                     Inl e \<Rightarrow> (Inl e, params)
                   | Inr withdrawTx \<Rightarrow>
                       (case block nearAccount (block_hash withdrawTx) of
                          Inl e \<Rightarrow> (Inl e, params)
                        | Inr timestamp \<Rightarrow>
                            (case toISOString env timestamp of
                               Inl e \<Rightarrow> (Inl e, params)
                             | Inr startTime' \<Rightarrow>
                                 (Inr (transfer
                                    \<lparr> status := COMPLETE,
                                      completedStep := Some LOCK_nep141,
                                      lockHashes := lockHashes transfer @ [the txHash],
                                      startTime := startTime' \<rparr>),
                                  urlParams_clear params clearParams)))))))"

text \<open>\<^verbatim>\<open>act\<close> and \<^verbatim>\<open>checkStatus\<close>. When locking throws, \<^verbatim>\<open>act\<close> logs the exception,
  waits if the redirect failed, clears \<^verbatim>\<open>locking\<close> from the URL when there is a window,
  and throws it again.\<close>

definition act_nep141 ::
  "near_env \<Rightarrow> url_params \<Rightarrow> near_transfer \<Rightarrow> (error + near_transfer) \<times> url_params" where
  "act_nep141 env params transfer =
     (case completedStep transfer of
        None \<Rightarrow>
          (case (if sourceToken transfer = Some ''NEAR''
                 then lockNear env params transfer no_options
                 else lock_nep141 env params transfer no_options) of
             (Inr transfer', params') \<Rightarrow> (Inr transfer', params')
           | (Inl error, params') \<Rightarrow>
               (Inl error,
                if window env then urlParams_clear params' [''locking''] else params'))
      | Some s \<Rightarrow>
          (Inl (Thrown Error
             (''Don't know how to act on transfer: '' @ JSON_stringify env transfer)),
           params))"

definition checkStatus_nep141 ::
  "near_env \<Rightarrow> url_params \<Rightarrow> near_transfer \<Rightarrow> (error + near_transfer) \<times> url_params" where
  "checkStatus_nep141 env params transfer =
     (case completedStep transfer of
        None \<Rightarrow> checkLock_nep141 env params transfer no_options
      | Some s \<Rightarrow>
          (Inl (Thrown Error
             (''Don't know how to checkStatus for transfer '' @ transfer_id transfer)),
           params))"

text \<open>\<^verbatim>\<open>Promise.all\<close>: every result, or an exception if one of the promises throws (here
  the first in the order of the list; which one JavaScript reports depends on timing).\<close>

fun promise_all :: "(error + 'a) list \<Rightarrow> error + 'a list" where
  "promise_all [] = Inr []"
| "promise_all (Inl e # ps) = Inl e"
| "promise_all (Inr x # ps) =
     (case promise_all ps of Inl e \<Rightarrow> Inl e | Inr xs \<Rightarrow> Inr (x # xs))"

text \<open>The symbol and decimals of a token, as both \<^verbatim>\<open>findAllTransfers\<close> and \<^verbatim>\<open>recover\<close>
  resolve them.\<close>

definition resolve_metadata ::
  "near_env \<Rightarrow> string \<Rightarrow> string \<Rightarrow> options \<Rightarrow> error + metadata" where
  "resolve_metadata env nep141Address auroraEvmAccount' options =
     (if nep141Address = auroraEvmAccount'
      then Inr \<lparr> md_symbol = ''ETH'', md_decimals = 18 \<rparr>
      else if \<not> truthy (opt_symbol options)
                \<or> opt_decimals options = None \<or> opt_decimals options = Some 0
      then getMetadata env nep141Address options
      else Inr \<lparr> md_symbol = '''', md_decimals = 0 \<rparr>)"

definition symbol_of :: "options \<Rightarrow> metadata \<Rightarrow> string" where
  "symbol_of options metadata =
     (case opt_symbol options of Some s \<Rightarrow> s | None \<Rightarrow> md_symbol metadata)"

definition decimals_of :: "options \<Rightarrow> metadata \<Rightarrow> int" where
  "decimals_of options metadata =
     (case opt_decimals options of Some d \<Rightarrow> d | None \<Rightarrow> md_decimals metadata)"

text \<open>The success value the module reads from a transaction status: the decoded text
  without its first and last character, and \<^verbatim>\<open>'0'\<close> when decoding throws because the
  status carries no success value.\<close>

definition successValue_of :: "near_env \<Rightarrow> tx_status \<Rightarrow> string" where
  "successValue_of env lockTx =
     (case SuccessValue lockTx of
        None \<Rightarrow> ''0''
      | Some v \<Rightarrow>
          let successValue = base64_toString env v
          in js_slice successValue 1 (int (length successValue) - 1))"

text \<open>The body of the \<^verbatim>\<open>map\<close> in \<^verbatim>\<open>findAllTransfers\<close>, for one indexed transaction;
  \<open>rnd\<close> is the text of the \<^verbatim>\<open>Math.random()\<close> drawn for it.\<close>

definition transfer_of_tx ::
  "near_env \<Rightarrow> near_account \<Rightarrow> string \<Rightarrow> string \<Rightarrow> string \<Rightarrow> string \<Rightarrow> string \<Rightarrow> int
     \<Rightarrow> metadata \<Rightarrow> indexed_tx \<Rightarrow> error + near_transfer option" where
  "transfer_of_tx env nearAccount rnd sender' nep141Address auroraEvmAccount'
       symbol' decimals' metadata tx =
     (case txStatus nearAccount (originated_from_transaction_hash tx) sender' of
        Inl e \<Rightarrow> Inl e
      | Inr lockTx \<Rightarrow>
          let successValue = successValue_of env lockTx in
          (case block nearAccount (block_hash lockTx) of
             Inl e \<Rightarrow> Inl e
           | Inr timestamp \<Rightarrow>
               let amount' = args_amount tx;
                   msg = args_msg tx;
                   recipient' =
                     (if nep141Address = auroraEvmAccount'
                      then ''0x'' @ js_slice_from msg (int (length msg) - 40)
                      else ''0x'' @ msg)
               in
               if amount' \<noteq> successValue then Inr None
               else
                 (case toISOString env timestamp of
                    Inl e \<Rightarrow> Inl e
                  | Inr startTime' \<Rightarrow>
                      Inr (Some
                        \<lparr> transfer_id = js_slice_from rnd 2,
                          amount = amount',
                          completedStep = Some LOCK_nep141,
                          destinationTokenName = ''a'' @ md_symbol metadata,
                          errors = [],
                          recipient = recipient',
                          sender = sender',
                          sourceToken = Some nep141Address,
                          sourceTokenName = md_symbol metadata,
                          symbol = symbol',
                          decimals = decimals',
                          status = COMPLETE,
                          transfer_type = TRANSFER_TYPE_nep141,
                          lockHashes = [originated_from_transaction_hash tx],
                          startTime = startTime' \<rparr>))))"

text \<open>The indexed transactions that \<^verbatim>\<open>findAllTransfers\<close> examines: calls of
  \<^verbatim>\<open>ft_transfer_call\<close> to the Aurora account whose message matches the pattern.\<close>

definition msg_pattern :: "near_env \<Rightarrow> string \<Rightarrow> string \<Rightarrow> string \<Rightarrow> string \<Rightarrow> bool" where
  "msg_pattern env sender' nep141Address auroraEvmAccount' =
     (if nep141Address = auroraEvmAccount'
      then RegExp_test env
             (''^'' @ sender' @ '':'' @ replicate 64 CHR ''0'' @ ''[a-f0-9]{40}$'')
      else test_lower_hex40)"

definition candidates ::
  "near_env \<Rightarrow> string \<Rightarrow> string \<Rightarrow> string \<Rightarrow> indexed_tx list \<Rightarrow> indexed_tx list" where
  "candidates env sender' nep141Address auroraEvmAccount' transactions =
     filter (\<lambda>tx. args_receiver_id tx = auroraEvmAccount'
                   \<and> msg_pattern env sender' nep141Address auroraEvmAccount' (args_msg tx))
       (filter (\<lambda>tx. method_name tx = ''ft_transfer_call'') transactions)"

text \<open>\<^verbatim>\<open>findAllTransfers\<close>; \<open>random i\<close> is the text of the \<^verbatim>\<open>Math.random()\<close> drawn for
  the candidate at position \<open>i\<close>.\<close>

definition findAllTransfers ::
  "near_env \<Rightarrow> (nat \<Rightarrow> string) \<Rightarrow> string \<Rightarrow> string \<Rightarrow> string \<Rightarrow> string
     \<Rightarrow> (string \<Rightarrow> error + indexed_tx list) \<Rightarrow> options \<Rightarrow> error + near_transfer list" where
  "findAllTransfers env random fromBlock toBlock sender' nep141Address callIndexer options =
     (let auroraEvmAccount' = auroraEvmAccount_of env options in
      case nearAccount_of env options of
        Inl e \<Rightarrow> Inl e
      | Inr nearAccount \<Rightarrow>
          (case callIndexer
                  (buildIndexerTxQuery env fromBlock toBlock sender' nep141Address) of
             Inl e \<Rightarrow> Inl e
           | Inr transactions \<Rightarrow>
               (case resolve_metadata env nep141Address auroraEvmAccount' options of
                  Inl e \<Rightarrow> Inl e
                | Inr metadata \<Rightarrow>
                    let symbol' = symbol_of options metadata;
                        decimals' = decimals_of options metadata;
                        txs = candidates env sender' nep141Address auroraEvmAccount'
                                transactions
                    in
                    (case promise_all
                            (map (\<lambda>(i, tx).
                                    transfer_of_tx env nearAccount (random i) sender'
                                      nep141Address auroraEvmAccount' symbol' decimals'
                                      metadata tx)
                               (enumerate 0 txs)) of
                       Inl e \<Rightarrow> Inl e
                     | Inr transfers \<Rightarrow>
                         Inr (map the (filter (\<lambda>transfer. transfer \<noteq> None) transfers))))))"

text \<open>\<^verbatim>\<open>recover\<close>; \<open>rnd\<close> is the text of the \<^verbatim>\<open>Math.random()\<close> drawn for the id.\<close>

definition recover_query :: "string \<Rightarrow> string \<Rightarrow> string" where
  "recover_query lockTxHash auroraEvmAccount' =
     ''SELECT public.receipts.included_in_block_timestamp,'' @ [CHR 0x0A]
     @ ''    public.action_receipt_actions.receipt_predecessor_account_id, ''
     @ ''public.action_receipt_actions.args'' @ [CHR 0x0A]
     @ ''    FROM public.receipts'' @ [CHR 0x0A]
     @ ''    JOIN public.action_receipt_actions'' @ [CHR 0x0A]
     @ ''    ON public.action_receipt_actions.receipt_id = public.receipts.receipt_id''
     @ [CHR 0x0A]
     @ ''    WHERE (originated_from_transaction_hash = '' @ [CHR 0x27] @ lockTxHash
     @ [CHR 0x27, CHR 0x0A]
     @ ''      AND receiver_account_id = '' @ [CHR 0x27] @ auroraEvmAccount'
     @ [CHR 0x27, CHR 0x0A]
     @ ''    )''"

definition recover_nep141 ::
  "near_env \<Rightarrow> string \<Rightarrow> string \<Rightarrow> (string \<Rightarrow> error + action_receipt list) \<Rightarrow> options
     \<Rightarrow> error + near_transfer" where
  "recover_nep141 env rnd lockTxHash callIndexer options =
     (let auroraEvmAccount' = auroraEvmAccount_of env options in
      case callIndexer (recover_query lockTxHash auroraEvmAccount') of
        Inl e \<Rightarrow> Inl e
      | Inr actionReceipts \<Rightarrow>
          (case filter (\<lambda>r. ar_method_name r = ''ft_on_transfer''
                           \<and> test_lower_hex40
                               (js_slice_from (ar_msg r) (int (length (ar_msg r)) - 40)))
                  actionReceipts of
             [] \<Rightarrow>
               Inl (Thrown Error
                 (''Failed to verify '' @ auroraEvmAccount'
                    @ '' ft_on_transfer action receipt: ''
                    @ JSON_stringify_receipts env actionReceipts))
           | lockToAuroraActionReceipt # others \<Rightarrow>
               let nep141Address = receipt_predecessor_account_id lockToAuroraActionReceipt
               in
               (case resolve_metadata env nep141Address auroraEvmAccount' options of
                  Inl e \<Rightarrow> Inl e
                | Inr metadata \<Rightarrow>
                    let symbol' = symbol_of options metadata;
                        decimals' = decimals_of options metadata;
                        msg = ar_msg lockToAuroraActionReceipt;
                        sender' =
                          (if ar_sender_id lockToAuroraActionReceipt = auroraEvmAccount'
                           then takeWhile (\<lambda>c. c \<noteq> CHR '':'')
                                  (if CHR '':'' \<in> set msg then msg else [])
                           else ar_sender_id lockToAuroraActionReceipt)
                    in
                    (case toISOString_Number env
                            (included_in_block_timestamp lockToAuroraActionReceipt) of
                       Inl e \<Rightarrow> Inl e
                     | Inr startTime' \<Rightarrow>
                         Inr \<lparr> transfer_id = js_slice_from rnd 2,
                               amount = ar_amount lockToAuroraActionReceipt,
                               completedStep = Some LOCK_nep141,
                               destinationTokenName = ''a'' @ md_symbol metadata,
                               errors = [],
                               recipient =
                                 ''0x'' @ js_slice_from msg (int (length msg) - 40),
                               sender = sender',
                               sourceToken = Some nep141Address,
                               sourceTokenName = md_symbol metadata,
                               symbol = symbol',
                               decimals = decimals',
                               status = COMPLETE,
                               transfer_type = TRANSFER_TYPE_nep141,
                               lockHashes = [lockTxHash],
                               startTime = startTime' \<rparr>))))"

text \<open>A sequence of calls on a NEAR transfer: each call with the collaborators and the
  URL parameters found at that call (the wallet redirect rewrites the URL between
  calls).\<close>

fun run_calls_nep141 ::
  "(call \<times> near_env \<times> url_params) list \<Rightarrow> near_transfer \<Rightarrow> error + near_transfer" where
  "run_calls_nep141 [] transfer = Inr transfer"
| "run_calls_nep141 ((c, env, params) # cs) transfer =
     (case fst (case c of Act \<Rightarrow> act_nep141 env params transfer
                        | CheckStatus \<Rightarrow> checkStatus_nep141 env params transfer) of
        Inl e \<Rightarrow> Inl e
      | Inr transfer' \<Rightarrow> run_calls_nep141 cs transfer')"

text \<open>The order of the completed steps of a protocol: equal, or strictly earlier in its
  step list.\<close>

definition step_le :: "string list \<Rightarrow> string option \<Rightarrow> string option \<Rightarrow> bool" where
  "step_le ss a b \<longleftrightarrow> a = b \<or> step_lt ss a b"

text \<open>What \<^verbatim>\<open>checkSync\<close> needs of a record that the dispatchers route to it: a transfer
  whose completed step is the lock has a lock receipt.\<close>

definition lock_receipt_recorded :: "eth_transfer \<Rightarrow> bool" where
  "lock_receipt_recorded transfer \<longleftrightarrow>
     (completedStep transfer = Some LOCK \<longrightarrow> lockReceipts transfer \<noteq> [])"

section \<open>Fixtures\<close>

text \<open>A transfer whose lock was mined in block 100 as \<^verbatim>\<open>0xabc\<close>, and chains where the
  light client has reached a given height and the proof is or is not used.\<close>

definition locked_transfer :: eth_transfer where
  "locked_transfer =
     \<lparr> transfer_id = ''2021-05-04T10:00:00.000Z'',
       amount = ''1000'',
       completedStep = Some LOCK,
       destinationTokenName = ''aETH'',
       errors = [],
       recipient = ''0x00000000000000000000000000000000000000aa'',
       sender = ''0x00000000000000000000000000000000000000bb'',
       sourceToken = None,
       sourceTokenName = ''ETH'',
       symbol = ''ETH'',
       decimals = 18,
       status = IN_PROGRESS,
       transfer_type = TRANSFER_TYPE,
       lockHashes = [''0xabc''],
       ethCache = None,
       completedConfirmations = 0,
       lockReceipts =
         [\<lparr> blockNumber = 100, receipt_status = True, transactionHash = ''0xabc'' \<rparr>],
       neededConfirmations = 20,
       mintHashes = [] \<rparr>"

definition synced_env :: "int \<Rightarrow> bool \<Rightarrow> eth_env" where
  "synced_env syncedTo used =
     \<lparr> ethNetworkId = ''main'',
       auroraEvmAccount = ''aurora'',
       getNetworkType = Inr ''main'',
       getBlockNumber = Inr (syncedTo + 5),
       depositToEVM = (\<lambda>from to fee value. Inr ''0xabc''),
       getTransaction = (\<lambda>h. Inr None),
       getTransactionReceipt = (\<lambda>h. Inr None),
       findReplacementTx = (\<lambda>height tx. Inr None),
       getRevertReason = (\<lambda>h network. Inr ''reverted''),
       getPastEvents = (\<lambda>fromBlock toBlock. Inr []),
       ethOnNearSyncHeight = Inr syncedTo,
       findProof = (\<lambda>h. Inr (''proof of '' @ h)),
       getNearAccount = Inr (),
       is_used_proof = (\<lambda>prf. Inr used) \<rparr>"

text \<open>A transfer whose lock was broadcast as \<^verbatim>\<open>0xabc\<close> and has no receipt, and a chain
  where \<^verbatim>\<open>0xabc\<close> was dropped, \<^verbatim>\<open>0xdef\<close> was mined with success in block 100, and the
  replacement finder answers as given.\<close>

definition pending_transfer :: eth_transfer where
  "pending_transfer =
     \<lparr> transfer_id = ''2021-05-04T10:00:00.000Z'',
       amount = ''1000'',
       completedStep = None,
       destinationTokenName = ''aETH'',
       errors = [],
       recipient = ''0x00000000000000000000000000000000000000aa'',
       sender = ''0x00000000000000000000000000000000000000bb'',
       sourceToken = None,
       sourceTokenName = ''ETH'',
       symbol = ''ETH'',
       decimals = 18,
       status = IN_PROGRESS,
       transfer_type = TRANSFER_TYPE,
       lockHashes = [''0xabc''],
       ethCache = Some
         \<lparr> cache_from = ''0x00000000000000000000000000000000000000bb'',
           cache_to = ''0x00000000000000000000000000000000000000cc'',
           cache_nonce = 7,
           cache_data = ''0x'',
           safeReorgHeight = 70 \<rparr>,
       completedConfirmations = 0,
       lockReceipts = [],
       neededConfirmations = 20,
       mintHashes = [] \<rparr>"

definition receipt_0xdef :: receipt where
  "receipt_0xdef = \<lparr> blockNumber = 100, receipt_status = True, transactionHash = ''0xdef'' \<rparr>"

definition dropped_env :: "error + found_tx option \<Rightarrow> eth_env" where
  "dropped_env found =
     \<lparr> ethNetworkId = ''main'',
       auroraEvmAccount = ''aurora'',
       getNetworkType = Inr ''main'',
       getBlockNumber = Inr 105,
       depositToEVM = (\<lambda>from to fee value. Inr ''0xabc''),
       getTransaction = (\<lambda>h. Inr None),
       getTransactionReceipt =
         (\<lambda>h. if h = Some ''0xdef'' then Inr (Some receipt_0xdef) else Inr None),
       findReplacementTx = (\<lambda>height tx. found),
       getRevertReason = (\<lambda>h network. Inr ''reverted''),
       getPastEvents = (\<lambda>fromBlock toBlock. Inr []),
       ethOnNearSyncHeight = Inr 101,
       findProof = (\<lambda>h. Inr (''proof of '' @ h)),
       getNearAccount = Inr (),
       is_used_proof = (\<lambda>prf. Inr False) \<rparr>"

text \<open>A NEAR account whose transaction \<^verbatim>\<open>txA\<close> transferred the 1000 it claimed, whose
  \<^verbatim>\<open>txB\<close> was reverted and whose \<^verbatim>\<open>txC\<close> returned 500; a browser in which the tracker
  stores the record and hands it back; and a transfer waiting for the wallet.\<close>

definition wallet_account :: near_account where
  "wallet_account =
     \<lparr> accountId = ''alice.near'',
       functionCall = (\<lambda>c. Inr ''txA''),
       signAndSendTransaction = (\<lambda>receiver actions. Inr ''txA''),
       storage_balance_bounds = (\<lambda>token. Inr ''1250000000000000000000''),
       storage_minimum_balance = (\<lambda>token. Inr ''1250000000000000000000''),
       storage_balance_of = (\<lambda>token account. Inr None),
       txStatus =
         (\<lambda>h signer.
            if h = ''txA'' then Inr \<lparr> SuccessValue = Some ''IjEwMDAi'', block_hash = ''B1'' \<rparr>
            else if h = ''txC''
            then Inr \<lparr> SuccessValue = Some ''IjUwMCI='', block_hash = ''B3'' \<rparr>
            else Inr \<lparr> SuccessValue = None, block_hash = ''B2'' \<rparr>),
       block = (\<lambda>h. Inr 1620122400000000000) \<rparr>"

definition browser_env :: near_env where
  "browser_env =
     \<lparr> window = True,
       bridge_auroraEvmAccount = ''aurora'',
       bridge_wNearNep141 = ''wrap.near'',
       getNearAccount_near = Inr wallet_account,
       track = Inr,
       getMetadata = (\<lambda>token options. Inr \<lparr> md_symbol = ''USDT'', md_decimals = 6 \<rparr>),
       buildIndexerTxQuery = (\<lambda>fromBlock toBlock predecessor receiver. ''query''),
       base_decode = Inr,
       JSON_stringify = transfer_id,
       JSON_stringify_receipts = (\<lambda>receipts. ''[]''),
       base64_toString =
         (\<lambda>v. if v = ''IjEwMDAi'' then [CHR 0x22] @ ''1000'' @ [CHR 0x22]
              else if v = ''IjUwMCI='' then [CHR 0x22] @ ''500'' @ [CHR 0x22]
              else ''''),
       RegExp_test = (\<lambda>pattern text. False),
       toISOString = (\<lambda>timestamp. Inr ''2021-05-04T10:00:00.000Z''),
       toISOString_Number = (\<lambda>timestamp. Inr ''2021-05-04T10:00:00.000Z'') \<rparr>"

definition near_pending_transfer :: near_transfer where
  "near_pending_transfer =
     \<lparr> transfer_id = ''4527'',
       amount = ''1000'',
       completedStep = None,
       destinationTokenName = ''aUSDT'',
       errors = [],
       recipient = ''0x00000000000000000000000000000000000000aa'',
       sender = ''alice.near'',
       sourceToken = Some ''usdt.near'',
       sourceTokenName = ''USDT'',
       symbol = ''USDT'',
       decimals = 6,
       status = IN_PROGRESS,
       transfer_type = TRANSFER_TYPE_nep141,
       lockHashes = [''txA''],
       startTime = ''2021-05-04T09:59:00.000Z'' \<rparr>"

definition redirected_params :: url_params where
  "redirected_params = [''locking'' \<mapsto> ''4527'', ''transactionHashes'' \<mapsto> ''txA'']"

text \<open>A transfer polled while its lock is pending, replaced, confirmed and finalized;
  and a NEAR transfer locked after the wallet redirect.\<close>

definition polled_calls :: "(call \<times> eth_env) list" where
  "polled_calls =
     [(CheckStatus, dropped_env (Inr None)),
      (CheckStatus, dropped_env (Inr (Some \<lparr> tx_hash = ''0xdef'' \<rparr>))),
      (CheckStatus, synced_env 119 True),
      (Act, synced_env 121 True)]"

definition finalized_after_replacement :: eth_transfer where
  "finalized_after_replacement =
     pending_transfer
       \<lparr> lockHashes := [''0xabc'', ''0xdef''],
         lockReceipts := [receipt_0xdef],
         completedStep := Some MINT,
         completedConfirmations := 21,
         status := COMPLETE,
         errors := [''Transfer already finalized.''] \<rparr>"

definition near_locked_transfer :: near_transfer where
  "near_locked_transfer =
     near_pending_transfer
       \<lparr> status := COMPLETE,
         completedStep := Some LOCK_nep141,
         lockHashes := [''txA'', ''txA''],
         startTime := ''2021-05-04T10:00:00.000Z'' \<rparr>"

text \<open>The wallet reports a rejected transaction; the user retries, which locks again;
  then the tab is closed and the URL carries nothing.\<close>

definition rejected_params :: url_params where
  "rejected_params = [''locking'' \<mapsto> ''4527'', ''errorCode'' \<mapsto> ''userRejected'']"

definition near_retried_transfer :: near_transfer where
  "near_retried_transfer =
     near_pending_transfer
       \<lparr> status := IN_PROGRESS,
         errors := [''Failed: userRejected''],
         lockHashes := [''txA''] \<rparr>"

text \<open>The locked transfer once \<^verbatim>\<open>checkSync\<close> has found its proof used.\<close>

definition finalized_transfer :: eth_transfer where
  "finalized_transfer =
     locked_transfer
       \<lparr> completedStep := Some MINT,
         completedConfirmations := 21,
         status := COMPLETE,
         errors := [''Transfer already finalized.''] \<rparr>"

text \<open>Chains on which the lock \<^verbatim>\<open>0xabc\<close> of the locked transfer can be recovered: its
  receipt and its \<^verbatim>\<open>Deposited\<close> event in block 100, the light client at 119; and an
  indexer that knows the action receipt of the NEAR transaction \<^verbatim>\<open>txA\<close>.\<close>

definition recover_env :: eth_env where
  "recover_env =
     synced_env 119 False
       \<lparr> getTransactionReceipt :=
           (\<lambda>h. if h = Some ''0xabc''
                then Inr (Some \<lparr> blockNumber = 100, receipt_status = True,
                                  transactionHash = ''0xabc'' \<rparr>)
                else Inr None),
         getPastEvents :=
           (\<lambda>fromBlock toBlock.
              Inr [\<lparr> ev_transactionHash = ''0xabc'',
                     ev_sender = ''0x00000000000000000000000000000000000000bb'',
                     ev_recipient = ''aurora:00000000000000000000000000000000000000aa'',
                     ev_amount = ''1000'' \<rparr>]) \<rparr>"

definition indexed_receipts :: "string \<Rightarrow> error + action_receipt list" where
  "indexed_receipts query =
     Inr [\<lparr> included_in_block_timestamp = ''1620122400000000000'',
            receipt_predecessor_account_id = ''usdt.near'',
            ar_method_name = ''ft_on_transfer'',
            ar_msg = ''00000000000000000000000000000000000000aa'',
            ar_amount = ''1000'',
            ar_sender_id = ''alice.near'' \<rparr>]"

definition near_recovered_transfer :: near_transfer where
  "near_recovered_transfer =
     near_pending_transfer
       \<lparr> completedStep := Some LOCK_nep141,
         status := COMPLETE,
         startTime := ''2021-05-04T10:00:00.000Z'' \<rparr>"

text \<open>An indexer feed for \<^verbatim>\<open>alice.near\<close> and the token \<^verbatim>\<open>usdt.near\<close>: a transfer of 1000
  that succeeded, one that was reverted, one of which only 500 were used, a call of
  another method and a transfer to another receiver.\<close>

definition indexed_feed :: "string \<Rightarrow> error + indexed_tx list" where
  "indexed_feed query =
     Inr [\<lparr> originated_from_transaction_hash = ''txA'', method_name = ''ft_transfer_call'',
            args_msg = ''00000000000000000000000000000000000000aa'',
            args_amount = ''1000'', args_receiver_id = ''aurora'' \<rparr>,
          \<lparr> originated_from_transaction_hash = ''txB'', method_name = ''ft_transfer_call'',
            args_msg = ''00000000000000000000000000000000000000aa'',
            args_amount = ''1000'', args_receiver_id = ''aurora'' \<rparr>,
          \<lparr> originated_from_transaction_hash = ''txC'', method_name = ''ft_transfer_call'',
            args_msg = ''00000000000000000000000000000000000000aa'',
            args_amount = ''1000'', args_receiver_id = ''aurora'' \<rparr>,
          \<lparr> originated_from_transaction_hash = ''txD'', method_name = ''ft_transfer'',
            args_msg = '''',
            args_amount = ''1000'', args_receiver_id = ''aurora'' \<rparr>,
          \<lparr> originated_from_transaction_hash = ''txE'', method_name = ''ft_transfer_call'',
            args_msg = ''00000000000000000000000000000000000000aa'',
            args_amount = ''1000'', args_receiver_id = ''bob.near'' \<rparr>]"

definition near_found_transfer :: near_transfer where
  "near_found_transfer =
     \<lparr> transfer_id = ''4527'',
       amount = ''1000'',
       completedStep = Some LOCK_nep141,
       destinationTokenName = ''aUSDT'',
       errors = [],
       recipient = ''0x00000000000000000000000000000000000000aa'',
       sender = ''alice.near'',
       sourceToken = Some ''usdt.near'',
       sourceTokenName = ''USDT'',
       symbol = ''USDT'',
       decimals = 6,
       status = COMPLETE,
       transfer_type = TRANSFER_TYPE_nep141,
       lockHashes = [''txA''],
       startTime = ''2021-05-04T10:00:00.000Z'' \<rparr>"

text \<open>A feed with one call that claims the amount 0 for \<^verbatim>\<open>txB\<close>, the reverted
  transaction, and the record that stands for it.\<close>

definition zero_feed :: "string \<Rightarrow> error + indexed_tx list" where
  "zero_feed query =
     Inr [\<lparr> originated_from_transaction_hash = ''txB'', method_name = ''ft_transfer_call'',
            args_msg = ''00000000000000000000000000000000000000aa'',
            args_amount = ''0'', args_receiver_id = ''aurora'' \<rparr>]"

definition near_reverted_transfer :: near_transfer where
  "near_reverted_transfer =
     near_found_transfer \<lparr> amount := ''0'', lockHashes := [''txB''] \<rparr>"

text \<open>The pending transfer once its replacement is confirmed, and chains whose light
  client cannot be reached.\<close>

definition replaced_transfer :: eth_transfer where
  "replaced_transfer =
     pending_transfer
       \<lparr> lockHashes := [''0xabc'', ''0xdef''],
         status := IN_PROGRESS,
         completedStep := Some LOCK,
         lockReceipts := [receipt_0xdef] \<rparr>"

definition unreachable_env :: eth_env where
  "unreachable_env =
     synced_env 0 False \<lparr> ethOnNearSyncHeight := Inl (Thrown Error ''timeout'') \<rparr>"

section \<open>Properties\<close>

subsection \<open>Reading the last element\<close>

lemma last_js_Some: "last_js xs = Some x \<longleftrightarrow> xs \<noteq> [] \<and> last xs = x"
  by (auto simp: last_js_def last_conv_nth)

subsection \<open>Confirmations counted by \<^verbatim>\<open>checkSync\<close>\<close>

text \<open>
  C1. When the last lock receipt exists and the light client reports its height,
  \<^verbatim>\<open>checkSync\<close> sets \<open>completedConfirmations\<close> to the maximum of 0 and the synced height
  minus the height of the lock event. If that does not exceed \<open>neededConfirmations\<close>, the
  result is the record with this count and status in progress. If it does, and the proof
  lookup and the registry answer, the result is complete at step mint when the proof is
  already used, and in progress with the count otherwise.
\<close>

theorem checkSync_confirmations:
  assumes "last_js (lockReceipts transfer) = Some lockReceipt"
    and "ethOnNearSyncHeight env = Inr syncedTo"
  shows "(max 0 (syncedTo - blockNumber lockReceipt) \<le> neededConfirmations transfer \<longrightarrow>
            checkSync env transfer = Inr (transfer
              \<lparr> completedConfirmations := max 0 (syncedTo - blockNumber lockReceipt),
                status := IN_PROGRESS \<rparr>))
       \<and> (max 0 (syncedTo - blockNumber lockReceipt) > neededConfirmations transfer
            \<and> findProof env (transactionHash lockReceipt) = Inr prf
            \<and> getNearAccount env = Inr u
            \<and> is_used_proof env prf = Inr used \<longrightarrow>
            checkSync env transfer = Inr
              (if used
               then transfer
                 \<lparr> completedStep := Some MINT,
                   completedConfirmations := max 0 (syncedTo - blockNumber lockReceipt),
                   status := COMPLETE,
                   errors := errors transfer @ [''Transfer already finalized.''] \<rparr>
               else transfer
                 \<lparr> completedConfirmations := max 0 (syncedTo - blockNumber lockReceipt),
                   status := IN_PROGRESS \<rparr>))"
  using assms by (auto simp: checkSync_def Let_def)

text \<open>The scenario of the specification: 20 confirmations needed, the event in block
  100; synced to 119 and to 121 with the proof used.\<close>

theorem checkSync_confirmations_witness:
  "completedStep locked_transfer = Some LOCK
   \<and> neededConfirmations locked_transfer = 20
   \<and> map blockNumber (lockReceipts locked_transfer) = [100]
   \<and> checkSync (synced_env 119 True) locked_transfer
       = Inr (locked_transfer \<lparr> completedConfirmations := 19, status := IN_PROGRESS \<rparr>)
   \<and> checkSync (synced_env 121 True) locked_transfer
       = Inr (locked_transfer
           \<lparr> completedStep := Some MINT, completedConfirmations := 21, status := COMPLETE,
             errors := [''Transfer already finalized.''] \<rparr>)"
proof -
  let ?r = "\<lparr> blockNumber = 100, receipt_status = True, transactionHash = ''0xabc'' \<rparr>"
  have l: "last_js (lockReceipts locked_transfer) = Some ?r"
    by (simp add: locked_transfer_def last_js_def)
  have a: "ethOnNearSyncHeight (synced_env 119 True) = Inr 119"
    and b: "ethOnNearSyncHeight (synced_env 121 True) = Inr 121"
    by (simp_all add: synced_env_def)
  show ?thesis
    using checkSync_confirmations [OF l a, of "''proof of 0xabc''" "()" True]
      checkSync_confirmations [OF l b, of "''proof of 0xabc''" "()" True]
    by (simp add: locked_transfer_def synced_env_def)
qed

subsection \<open>What the operations on an Ether transfer can return\<close>

lemma checkSync_Inr:
  assumes "checkSync env t = Inr t'"
  shows "\<exists>c. t' = t \<lparr> completedConfirmations := c, status := IN_PROGRESS \<rparr>
           \<or> t' = t \<lparr> completedStep := Some MINT, completedConfirmations := c,
                       status := COMPLETE,
                       errors := errors t @ [''Transfer already finalized.''] \<rparr>"
  using assms
  by (auto simp: checkSync_def Let_def split: option.splits sum.splits if_splits)

lemma checkLockReceipt_Inr:
  assumes "checkLockReceipt env t h n r = Inr t'"
  shows "t' = t
       \<or> (\<exists>e x. t' = t \<lparr> status := FAILED, errors := errors t @ [e],
                           lockReceipts := lockReceipts t @ [x] \<rparr>)
       \<or> (\<exists>x. t' = t \<lparr> status := IN_PROGRESS, completedStep := Some LOCK,
                         lockReceipts := lockReceipts t @ [x] \<rparr>)
       \<or> (\<exists>x. t' = t \<lparr> lockHashes := lockHashes t @ [transactionHash x],
                         status := IN_PROGRESS, completedStep := Some LOCK,
                         lockReceipts := lockReceipts t @ [x] \<rparr>)"
  using assms
  by (auto simp: checkLockReceipt_def Let_def split: option.splits if_splits)

lemma checkLock_Inr:
  assumes "checkLock env t = Inr t'"
  shows "t' = t
       \<or> (\<exists>e. t' = t \<lparr> errors := errors t @ [e], status := FAILED \<rparr>)
       \<or> (\<exists>e x. t' = t \<lparr> status := FAILED, errors := errors t @ [e],
                           lockReceipts := lockReceipts t @ [x] \<rparr>)
       \<or> (\<exists>x. t' = t \<lparr> status := IN_PROGRESS, completedStep := Some LOCK,
                         lockReceipts := lockReceipts t @ [x] \<rparr>)
       \<or> (\<exists>x. t' = t \<lparr> lockHashes := lockHashes t @ [transactionHash x],
                         status := IN_PROGRESS, completedStep := Some LOCK,
                         lockReceipts := lockReceipts t @ [x] \<rparr>)"
  using assms
  by (auto simp: checkLock_def Let_def split: option.splits sum.splits if_splits
      dest!: checkLockReceipt_Inr)

lemma lock_Inr:
  assumes "lock env t = Inr t'"
  shows "\<exists>c h. t' = t \<lparr> status := IN_PROGRESS, ethCache := Some c,
                          lockHashes := lockHashes t @ [h] \<rparr>"
  using assms
  by (auto simp: lock_def Let_def split: option.splits sum.splits if_splits)

subsection \<open>A dropped lock transaction and its replacement\<close>

text \<open>
  C2. In \<^verbatim>\<open>checkLock\<close> on the expected network, when the most recent entry of
  \<open>lockHashes\<close> has no receipt: if the replacement finder returns no candidate, the record
  is returned unchanged; if it throws a search or validation error, the record is returned
  failed with the message of the error appended to \<open>errors\<close>; if it finds a replacement
  whose receipt reports success, the hash of the replacement is appended to \<open>lockHashes\<close>,
  the receipt to \<open>lockReceipts\<close>, and the completed step becomes the lock.
\<close>

theorem checkLock_replacement:
  assumes net: "getNetworkType env = Inr (ethNetworkId env)"
    and none: "getTransactionReceipt env (last_js (lockHashes transfer)) = Inr None"
    and cache: "ethCache transfer = Some c"
    and tx: "tx = \<lparr> q_nonce = cache_nonce c, q_from = cache_from c,
                     q_to = cache_to c, q_data = cache_data c \<rparr>"
  shows "(findReplacementTx env (safeReorgHeight c) tx = Inr None \<longrightarrow>
            checkLock env transfer = Inr transfer)
       \<and> (findReplacementTx env (safeReorgHeight c) tx = Inl (Thrown cls msg)
            \<and> (cls = SearchError \<or> cls = TxValidationError) \<longrightarrow>
            checkLock env transfer
              = Inr (transfer \<lparr> errors := errors transfer @ [msg], status := FAILED \<rparr>))
       \<and> (findReplacementTx env (safeReorgHeight c) tx = Inr (Some foundTx)
            \<and> getTransactionReceipt env (Some (tx_hash foundTx)) = Inr (Some lockReceipt)
            \<and> transactionHash lockReceipt = tx_hash foundTx
            \<and> receipt_status lockReceipt \<longrightarrow>
            checkLock env transfer
              = Inr (transfer
                  \<lparr> lockHashes := lockHashes transfer @ [tx_hash foundTx],
                    status := IN_PROGRESS,
                    completedStep := Some LOCK,
                    lockReceipts := lockReceipts transfer @ [lockReceipt] \<rparr>))"
proof (intro conjI impI)
  assume "findReplacementTx env (safeReorgHeight c) tx = Inr None"
  then show "checkLock env transfer = Inr transfer"
    using net none cache tx by (simp add: checkLock_def replacementReceipt_def Let_def)
next
  assume "findReplacementTx env (safeReorgHeight c) tx = Inl (Thrown cls msg)
            \<and> (cls = SearchError \<or> cls = TxValidationError)"
  then show "checkLock env transfer
      = Inr (transfer \<lparr> errors := errors transfer @ [msg], status := FAILED \<rparr>)"
    using net none cache tx by (auto simp: checkLock_def replacementReceipt_def Let_def)
next
  assume a: "findReplacementTx env (safeReorgHeight c) tx = Inr (Some foundTx)
            \<and> getTransactionReceipt env (Some (tx_hash foundTx)) = Inr (Some lockReceipt)
            \<and> transactionHash lockReceipt = tx_hash foundTx
            \<and> receipt_status lockReceipt"
  with none have "Some (transactionHash lockReceipt) \<noteq> last_js (lockHashes transfer)"
    by auto
  with a show "checkLock env transfer
      = Inr (transfer
          \<lparr> lockHashes := lockHashes transfer @ [tx_hash foundTx],
            status := IN_PROGRESS,
            completedStep := Some LOCK,
            lockReceipts := lockReceipts transfer @ [lockReceipt] \<rparr>)"
    using net none cache tx
    by (simp add: checkLock_def replacementReceipt_def checkLockReceipt_def Let_def)
qed

text \<open>The scenario of the specification: broadcast as \<^verbatim>\<open>0xabc\<close>, replaced by the
  successful \<^verbatim>\<open>0xdef\<close>; and the two other answers of the finder.\<close>

theorem checkLock_replacement_witness:
  "checkLock (dropped_env (Inr None)) pending_transfer = Inr pending_transfer
   \<and> checkLock (dropped_env (Inl (Thrown SearchError ''no replacement''))) pending_transfer
       = Inr (pending_transfer \<lparr> errors := [''no replacement''], status := FAILED \<rparr>)
   \<and> checkLock (dropped_env (Inr (Some \<lparr> tx_hash = ''0xdef'' \<rparr>))) pending_transfer
       = Inr (pending_transfer
           \<lparr> lockHashes := [''0xabc'', ''0xdef''],
             status := IN_PROGRESS,
             completedStep := Some LOCK,
             lockReceipts := [receipt_0xdef] \<rparr>)"
proof -
  let ?c = "\<lparr> cache_from = ''0x00000000000000000000000000000000000000bb'',
           cache_to = ''0x00000000000000000000000000000000000000cc'',
           cache_nonce = 7,
           cache_data = ''0x'',
           safeReorgHeight = 70 \<rparr>"
  have net: "getNetworkType (dropped_env f) = Inr (ethNetworkId (dropped_env f))" for f
    by (simp add: dropped_env_def)
  have none: "getTransactionReceipt (dropped_env f) (last_js (lockHashes pending_transfer))
      = Inr None" for f
    by (simp add: dropped_env_def pending_transfer_def last_js_def)
  have cache: "ethCache pending_transfer = Some ?c"
    by (simp add: pending_transfer_def)
  note th = checkLock_replacement [OF net none cache refl]
  show ?thesis
    using th [of "Inr None" SearchError "''''" "\<lparr> tx_hash = ''0xdef'' \<rparr>" receipt_0xdef]
      th [of "Inl (Thrown SearchError ''no replacement'')" SearchError "''no replacement''"
             "\<lparr> tx_hash = ''0xdef'' \<rparr>" receipt_0xdef]
      th [of "Inr (Some \<lparr> tx_hash = ''0xdef'' \<rparr>)" SearchError "''''"
             "\<lparr> tx_hash = ''0xdef'' \<rparr>" receipt_0xdef]
    by (simp add: dropped_env_def pending_transfer_def receipt_0xdef_def)
qed

subsection \<open>The order of the steps, and the steps of an Ether transfer\<close>

lemma step_pos_steps [simp]:
  "step_pos steps None = Some 0"
  "step_pos steps (Some LOCK) = Some 1"
  "step_pos steps (Some MINT) = Some 3"
  by (simp_all add: step_pos_def steps_def LOCK_def SYNC_def MINT_def)

lemma step_lt_irrefl: "\<not> step_lt ss a a"
  by (simp add: step_lt_def split: option.splits)

lemma step_lt_asym: "step_lt ss a b \<Longrightarrow> \<not> step_lt ss b a"
  by (auto simp: step_lt_def split: option.splits)

lemma step_lt_trans: "step_lt ss a b \<Longrightarrow> step_lt ss b c \<Longrightarrow> step_lt ss a c"
  by (auto simp: step_lt_def split: option.splits)


lemma act_step: "act env t = Inr t' \<Longrightarrow> step_le steps (completedStep t) (completedStep t')"
  by (auto simp: act_def step_le_def step_lt_def split: option.splits if_splits
      dest!: lock_Inr checkSync_Inr)

lemma checkStatus_step:
  "checkStatus env t = Inr t' \<Longrightarrow> step_le steps (completedStep t) (completedStep t')"
  by (auto simp: checkStatus_def step_le_def step_lt_def split: option.splits if_splits
      dest!: checkLock_Inr checkSync_Inr)

lemma step_le_trans: "step_le ss a b \<Longrightarrow> step_le ss b c \<Longrightarrow> step_le ss a c"
  by (auto simp: step_le_def dest: step_lt_trans)

lemma run_calls_step:
  "run_calls cs t = Inr t' \<Longrightarrow> step_le steps (completedStep t) (completedStep t')"
proof (induction cs arbitrary: t)
  case Nil
  then show ?case by (simp add: step_le_def)
next
  case (Cons a cs)
  obtain c env where a: "a = (c, env)" by (cases a)
  from Cons.prems a obtain t1 where
    s: "(case c of Act \<Rightarrow> act env t | CheckStatus \<Rightarrow> checkStatus env t) = Inr t1"
    and r: "run_calls cs t1 = Inr t'"
    by (auto split: sum.splits)
  from s have "step_le steps (completedStep t) (completedStep t1)"
    by (cases c) (auto dest: act_step checkStatus_step)
  with Cons.IH [OF r] show ?case by (rule step_le_trans [rotated])
qed

subsection \<open>What the operations on a NEAR transfer can return\<close>

lemma track_in_progress_Inr:
  assumes "track_in_progress env t = Inr t1"
  shows "t1 = t \<or> track env (t \<lparr> status := IN_PROGRESS \<rparr>) = Inr t1"
  using assms by (auto simp: track_in_progress_def split: if_splits)

lemma lock_nep141_Inr:
  assumes "lock_nep141 env params t opts = (Inr t', params')"
  shows "\<exists>t1 h. track_in_progress env t = Inr t1 \<and> t' = t1 \<lparr> lockHashes := [h] \<rparr>"
  using assms
  by (auto simp: lock_nep141_def Let_def split: sum.splits)

lemma lockNear_Inr:
  assumes "lockNear env params t opts = (Inr t', params')"
  shows "\<exists>t1 h. track_in_progress env t = Inr t1 \<and> t' = t1 \<lparr> lockHashes := [h] \<rparr>"
  using assms
  by (auto simp: lockNear_def Let_def split: sum.splits)

lemma checkLock_nep141_Inr:
  assumes "checkLock_nep141 env params t opts = (Inr t', params')"
  shows "t' = t
       \<or> (\<exists>e. t' = t \<lparr> status := FAILED, errors := [e] \<rparr>)
       \<or> (\<exists>h s. t' = t \<lparr> status := COMPLETE, completedStep := Some LOCK_nep141,
                           lockHashes := lockHashes t @ [h], startTime := s \<rparr>)"
  using assms
  by (auto simp: checkLock_nep141_def Let_def split: sum.splits if_splits)

lemma act_nep141_Inr:
  assumes "fst (act_nep141 env params t) = Inr t'"
  shows "completedStep t = None
       \<and> (\<exists>t1 h. track_in_progress env t = Inr t1 \<and> t' = t1 \<lparr> lockHashes := [h] \<rparr>)"
proof (cases "completedStep t")
  case None
  let ?r = "if sourceToken t = Some ''NEAR'' then lockNear env params t no_options
            else lock_nep141 env params t no_options"
  obtain p where "?r = (Inr t', p)"
    using assms None by (cases ?r) (auto simp: act_nep141_def split: sum.splits)
  then have "\<exists>t1 h. track_in_progress env t = Inr t1 \<and> t' = t1 \<lparr> lockHashes := [h] \<rparr>"
    using lock_nep141_Inr [of env params t no_options t' p]
      lockNear_Inr [of env params t no_options t' p]
    by (cases "sourceToken t = Some ''NEAR''") simp_all
  with None show ?thesis by simp
next
  case (Some s)
  with assms show ?thesis by (simp add: act_nep141_def)
qed

lemma checkStatus_nep141_Inr:
  assumes "fst (checkStatus_nep141 env params t) = Inr t'"
  shows "completedStep t = None
       \<and> (t' = t
          \<or> (\<exists>e. t' = t \<lparr> status := FAILED, errors := [e] \<rparr>)
          \<or> (\<exists>h s. t' = t \<lparr> status := COMPLETE, completedStep := Some LOCK_nep141,
                           lockHashes := lockHashes t @ [h], startTime := s \<rparr>))"
proof (cases "completedStep t")
  case None
  obtain p where "checkLock_nep141 env params t no_options = (Inr t', p)"
    using assms None by (cases "checkLock_nep141 env params t no_options")
      (auto simp: checkStatus_nep141_def)
  from checkLock_nep141_Inr [OF this] None show ?thesis by simp
next
  case (Some s)
  with assms show ?thesis by (simp add: checkStatus_nep141_def)
qed

subsection \<open>The completed step never goes back\<close>

lemma step_pos_steps_nep141 [simp]:
  "step_pos steps_nep141 None = Some 0"
  "step_pos steps_nep141 (Some LOCK_nep141) = Some 1"
  by (simp_all add: step_pos_def steps_nep141_def)

lemma call_nep141_step:
  assumes keep: "\<forall>x x'. track env x = Inr x' \<longrightarrow> completedStep x' = completedStep x"
    and call: "fst (case c of Act \<Rightarrow> act_nep141 env params t
                             | CheckStatus \<Rightarrow> checkStatus_nep141 env params t) = Inr t'"
  shows "step_le steps_nep141 (completedStep t) (completedStep t')"
proof (cases c)
  case Act
  with call have "fst (act_nep141 env params t) = Inr t'" by simp
  from act_nep141_Inr [OF this] obtain t1 h where n: "completedStep t = None"
    and tr: "track_in_progress env t = Inr t1" and t': "t' = t1 \<lparr> lockHashes := [h] \<rparr>"
    by blast
  from track_in_progress_Inr [OF tr] keep have "completedStep t1 = completedStep t"
    by auto
  with t' show ?thesis by (simp add: step_le_def)
next
  case CheckStatus
  with call have "fst (checkStatus_nep141 env params t) = Inr t'" by simp
  from checkStatus_nep141_Inr [OF this]
  have "completedStep t = None"
    and "completedStep t' = None \<or> completedStep t' = Some LOCK_nep141"
    by auto
  then show ?thesis by (auto simp: step_le_def step_lt_def)
qed

lemma run_calls_nep141_step:
  assumes "\<forall>(c, env, params) \<in> set cs.
             \<forall>x x'. track env x = Inr x' \<longrightarrow> completedStep x' = completedStep x"
    and "run_calls_nep141 cs t = Inr t'"
  shows "step_le steps_nep141 (completedStep t) (completedStep t')"
  using assms
proof (induction cs arbitrary: t)
  case Nil
  then show ?case by (simp add: step_le_def)
next
  case (Cons a cs)
  obtain c env params where a: "a = (c, env, params)" by (cases a)
  from Cons.prems(2) a obtain t1 where
    s: "fst (case c of Act \<Rightarrow> act_nep141 env params t
                      | CheckStatus \<Rightarrow> checkStatus_nep141 env params t) = Inr t1"
    and r: "run_calls_nep141 cs t1 = Inr t'"
    by (auto split: sum.splits)
  from Cons.prems(1) a
  have keep: "\<forall>x x'. track env x = Inr x' \<longrightarrow> completedStep x' = completedStep x"
    and rest: "\<forall>(c, env, params) \<in> set cs.
             \<forall>x x'. track env x = Inr x' \<longrightarrow> completedStep x' = completedStep x"
    by auto
  from call_nep141_step [OF keep s] Cons.IH [OF rest r]
  show ?case by (rule step_le_trans)
qed

lemma step_le_no_regress: "step_le ss a b \<Longrightarrow> \<not> step_lt ss b a"
  by (auto simp: step_le_def step_lt_irrefl dest: step_lt_asym)

lemma run_calls_polled: "run_calls polled_calls pending_transfer = Inr finalized_after_replacement"
  by (simp add: polled_calls_def pending_transfer_def finalized_after_replacement_def
      checkStatus_def act_def checkLock_def checkSync_def replacementReceipt_def
      checkLockReceipt_def dropped_env_def synced_env_def receipt_0xdef_def last_js_def
      Let_def LOCK_def)

lemma run_calls_nep141_redirected: "run_calls_nep141
       [(Act, browser_env, Map.empty), (CheckStatus, browser_env, redirected_params)]
       near_pending_transfer = Inr near_locked_transfer"
  by (simp add: near_pending_transfer_def near_locked_transfer_def act_nep141_def
      checkStatus_nep141_def checkLock_nep141_def lock_nep141_def browser_env_def
      wallet_account_def redirected_params_def no_options_def nearAccount_of_def
      auroraEvmAccount_of_def set_locking_def track_in_progress_def urlParams_get_def
      urlParams_set_def urlParams_clear_def truthy_def Let_def)

text \<open>
  C3. Over any sequence of \<^verbatim>\<open>act\<close> and \<^verbatim>\<open>checkStatus\<close> calls that returns, under any
  states of the chains, the completed step of the result is the completed step of the
  input or a strictly later step, and never a strictly earlier one: for the Ether
  protocol in the order none, lock, sync, mint, and for the NEAR protocol in the order
  none, lock, provided the tracker of the client package hands back a record with the
  completed step it was given.
\<close>

theorem completedStep_never_regresses:
  "(run_calls cs t = Inr t' \<longrightarrow>
      step_le steps (completedStep t) (completedStep t')
      \<and> \<not> step_lt steps (completedStep t') (completedStep t))
   \<and> ((\<forall>(c, env, params) \<in> set ncs.
          \<forall>x x'. track env x = Inr x' \<longrightarrow> completedStep x' = completedStep x)
       \<and> run_calls_nep141 ncs nt = Inr nt' \<longrightarrow>
      step_le steps_nep141 (completedStep nt) (completedStep nt')
      \<and> \<not> step_lt steps_nep141 (completedStep nt') (completedStep nt))"
  using run_calls_step [of cs t t'] run_calls_nep141_step [of ncs nt nt']
  by (blast dest: step_le_no_regress)

theorem completedStep_never_regresses_witness:
  "run_calls polled_calls pending_transfer = Inr finalized_after_replacement
   \<and> completedStep pending_transfer = None
   \<and> completedStep finalized_after_replacement = Some MINT
   \<and> step_le steps None (Some MINT)
   \<and> \<not> step_lt steps (Some MINT) None
   \<and> run_calls_nep141
         [(Act, browser_env, Map.empty), (CheckStatus, browser_env, redirected_params)]
         near_pending_transfer = Inr near_locked_transfer
   \<and> completedStep near_pending_transfer = None
   \<and> completedStep near_locked_transfer = Some LOCK_nep141
   \<and> step_le steps_nep141 None (Some LOCK_nep141)
   \<and> \<not> step_lt steps_nep141 (Some LOCK_nep141) None"
proof -
  have keep: "\<forall>(c, env, params)
                 \<in> set [(Act, browser_env, Map.empty),
                         (CheckStatus, browser_env, redirected_params)].
               \<forall>x x'. track env x = Inr x' \<longrightarrow> completedStep x' = completedStep x"
    by (simp add: browser_env_def)
  have steps: "completedStep pending_transfer = None"
    "completedStep finalized_after_replacement = Some MINT"
    "completedStep near_pending_transfer = None"
    "completedStep near_locked_transfer = Some LOCK_nep141"
    by (simp_all add: pending_transfer_def finalized_after_replacement_def
        near_pending_transfer_def near_locked_transfer_def)
  show ?thesis
    using completedStep_never_regresses
      [of polled_calls pending_transfer finalized_after_replacement
          "[(Act, browser_env, Map.empty), (CheckStatus, browser_env, redirected_params)]"
          near_pending_transfer near_locked_transfer]
      keep run_calls_polled run_calls_nep141_redirected
    by (simp add: steps)
qed

subsection \<open>The audit trail of errors\<close>

text \<open>The operations on an Ether transfer only append to \<open>errors\<close>.\<close>

lemma eth_errors_prefix:
  "checkSync env t = Inr t' \<Longrightarrow> prefix (errors t) (errors t')"
  "checkLock env t = Inr t' \<Longrightarrow> prefix (errors t) (errors t')"
  "act env t = Inr t' \<Longrightarrow> prefix (errors t) (errors t')"
  "checkStatus env t = Inr t' \<Longrightarrow> prefix (errors t) (errors t')"
  by (auto simp: act_def checkStatus_def split: option.splits if_splits
      dest!: checkSync_Inr checkLock_Inr lock_Inr)

text \<open>
  C4. The errors of a returned record should start with the errors of the input
  record. The operations on a NEAR transfer break this: after the wallet reported a
  rejected transaction and the user retried, the record carries one error; when the URL
  then carries no transfer id, \<^verbatim>\<open>checkStatus\<close> returns the record failed with the new
  message as its only error, and the earlier one is gone.
\<close>

theorem checkLock_nep141_replaces_errors:
  "run_calls_nep141
       [(CheckStatus, browser_env, rejected_params), (Act, browser_env, Map.empty)]
       near_pending_transfer = Inr near_retried_transfer
   \<and> errors near_retried_transfer = [''Failed: userRejected'']
   \<and> fst (checkStatus_nep141 browser_env Map.empty near_retried_transfer)
       = Inr (near_retried_transfer
           \<lparr> status := FAILED,
             errors := [''Failed to process NEAR Wallet transaction.''] \<rparr>)
   \<and> \<not> prefix (errors near_retried_transfer)
          [''Failed to process NEAR Wallet transaction.'']"
  by (simp add: near_pending_transfer_def near_retried_transfer_def act_nep141_def
      checkStatus_nep141_def checkLock_nep141_def lock_nep141_def browser_env_def
      wallet_account_def rejected_params_def no_options_def nearAccount_of_def
      auroraEvmAccount_of_def set_locking_def track_in_progress_def urlParams_get_def
      urlParams_set_def urlParams_clear_def truthy_def Let_def)

subsection \<open>Repeating \<^verbatim>\<open>checkSync\<close>\<close>

text \<open>
  C5, as stated, fails: with the chains unchanged, \<^verbatim>\<open>checkSync\<close> on the record it
  returned as complete returns a different record.
\<close>

theorem checkSync_idempotent_counterexample:
  "checkSync (synced_env 121 True) locked_transfer = Inr finalized_transfer
   \<and> checkSync (synced_env 121 True) finalized_transfer \<noteq> Inr finalized_transfer"
  by (simp add: checkSync_def synced_env_def locked_transfer_def finalized_transfer_def
      last_js_def Let_def)

text \<open>
  C5, amended. When \<^verbatim>\<open>checkSync\<close> returns a record, its status is in progress or
  complete. If it is in progress, \<^verbatim>\<open>checkSync\<close> on that record under the same chains
  returns the same record. If it is complete, \<^verbatim>\<open>checkSync\<close> on that record returns it
  with one more entry \<^verbatim>\<open>Transfer already finalized.\<close> appended to \<open>errors\<close> and no
  other difference.
\<close>

theorem checkSync_repeated:
  assumes "checkSync env t = Inr t'"
  shows "(status t' = IN_PROGRESS \<or> status t' = COMPLETE)
       \<and> (status t' = IN_PROGRESS \<longrightarrow> checkSync env t' = Inr t')
       \<and> (status t' = COMPLETE \<longrightarrow>
            checkSync env t'
              = Inr (t' \<lparr> errors := errors t' @ [''Transfer already finalized.''] \<rparr>))"
proof -
  from assms obtain r h where r: "last_js (lockReceipts t) = Some r"
    and h: "ethOnNearSyncHeight env = Inr h"
    by (auto simp: checkSync_def split: option.splits sum.splits)
  let ?c = "max 0 (h - blockNumber r)"
  let ?p = "t \<lparr> completedConfirmations := ?c, status := IN_PROGRESS \<rparr>"
  let ?m = "t \<lparr> completedStep := Some MINT, completedConfirmations := ?c,
                status := COMPLETE,
                errors := errors t @ [''Transfer already finalized.''] \<rparr>"
  show ?thesis
  proof (cases "?c > neededConfirmations t")
    case False
    with assms r h have "t' = ?p" by (simp add: checkSync_def Let_def)
    moreover from False r h have "checkSync env ?p = Inr ?p"
      by (simp add: checkSync_def Let_def)
    ultimately show ?thesis by simp
  next
    case True
    with assms r h obtain p u used where p: "findProof env (transactionHash r) = Inr p"
      and u: "getNearAccount env = Inr u" and used: "is_used_proof env p = Inr used"
      by (auto simp: checkSync_def Let_def split: sum.splits)
    show ?thesis
    proof (cases used)
      case False
      with assms r h True p u used have "t' = ?p" by (simp add: checkSync_def Let_def)
      moreover from False r h True p u used have "checkSync env ?p = Inr ?p"
        by (simp add: checkSync_def Let_def)
      ultimately show ?thesis by simp
    next
      case used_True: True
      with assms r h True p u used have "t' = ?m" by (simp add: checkSync_def Let_def)
      moreover from used_True r h True p u used
      have "checkSync env ?m
          = Inr (?m \<lparr> errors := errors ?m @ [''Transfer already finalized.''] \<rparr>)"
        by (simp add: checkSync_def Let_def)
      ultimately show ?thesis by simp
    qed
  qed
qed

theorem checkSync_repeated_witness:
  "checkSync (synced_env 119 True) locked_transfer
     = Inr (locked_transfer \<lparr> completedConfirmations := 19 \<rparr>)
   \<and> checkSync (synced_env 119 True) (locked_transfer \<lparr> completedConfirmations := 19 \<rparr>)
     = Inr (locked_transfer \<lparr> completedConfirmations := 19 \<rparr>)
   \<and> checkSync (synced_env 121 True) locked_transfer = Inr finalized_transfer
   \<and> checkSync (synced_env 121 True) finalized_transfer
     = Inr (finalized_transfer
         \<lparr> errors := [''Transfer already finalized.'', ''Transfer already finalized.''] \<rparr>)"
proof -
  have a: "checkSync (synced_env 119 True) locked_transfer
     = Inr (locked_transfer \<lparr> completedConfirmations := 19 \<rparr>)"
    by (simp add: checkSync_def synced_env_def locked_transfer_def last_js_def Let_def)
  have b: "checkSync (synced_env 121 True) locked_transfer = Inr finalized_transfer"
    by (simp add: checkSync_def synced_env_def locked_transfer_def finalized_transfer_def
      last_js_def Let_def)
  show ?thesis
    using checkSync_repeated [OF a] checkSync_repeated [OF b] a b
    by (simp add: locked_transfer_def finalized_transfer_def)
qed

subsection \<open>The id given by \<^verbatim>\<open>recover\<close>\<close>

lemma checkSync_transfer_id:
  "map_sum id (transfer_id_update (\<lambda>_. x)) (checkSync env t)
     = checkSync env (t \<lparr> transfer_id := x \<rparr>)"
  by (simp add: checkSync_def Let_def split: option.splits sum.splits)

lemma recover_transfer_id:
  "recover env now h = map_sum id (transfer_id_update (\<lambda>_. now)) (recover env [] h)"
  by (simp add: recover_def Let_def checkSync_transfer_id
      split: option.splits sum.splits list.splits)

lemma recover_nep141_transfer_id:
  "recover_nep141 env rnd h callIndexer opts
     = map_sum id (transfer_id_update (\<lambda>_. js_slice_from rnd 2))
         (recover_nep141 env [] h callIndexer opts)"
  by (simp add: recover_nep141_def Let_def js_slice_from_def
      split: option.splits sum.splits list.splits)

lemma recover_at:
  "recover recover_env now ''0xabc''
     = Inr (locked_transfer \<lparr> transfer_id := now, completedConfirmations := 19 \<rparr>)"
  by (simp add: recover_def recover_env_def synced_env_def locked_transfer_def
      checkSync_def last_js_def test_hex40_def is_hex_def Let_def)

lemma recover_nep141_at:
  "recover_nep141 browser_env rnd ''txA'' indexed_receipts no_options
     = Inr (near_recovered_transfer \<lparr> transfer_id := js_slice_from rnd 2 \<rparr>)"
  by (simp add: recover_nep141_def browser_env_def indexed_receipts_def no_options_def
      near_recovered_transfer_def near_pending_transfer_def auroraEvmAccount_of_def
      resolve_metadata_def symbol_of_def decimals_of_def truthy_def test_lower_hex40_def
      is_lower_hex_def js_slice_from_def js_index_def Let_def)

text \<open>
  C6, as stated, fails: on the same chains and the same indexer, two recoveries of the
  same lock transaction return records with different ids, for the Ether transfer when
  the clock has advanced and for the NEAR transfer when the random draw differs.
\<close>

theorem recover_id_deterministic_counterexample:
  "map_sum id transfer_id (recover recover_env ''2021-05-04T10:00:00.000Z'' ''0xabc'')
     = Inr ''2021-05-04T10:00:00.000Z''
   \<and> map_sum id transfer_id (recover recover_env ''2021-05-04T10:00:01.000Z'' ''0xabc'')
     = Inr ''2021-05-04T10:00:01.000Z''
   \<and> map_sum id transfer_id
         (recover_nep141 browser_env ''0.4527'' ''txA'' indexed_receipts no_options)
     = Inr ''4527''
   \<and> map_sum id transfer_id
         (recover_nep141 browser_env ''0.9913'' ''txA'' indexed_receipts no_options)
     = Inr ''9913''
   \<and> map_sum id transfer_id (recover recover_env ''2021-05-04T10:00:00.000Z'' ''0xabc'')
     \<noteq> map_sum id transfer_id
         (recover recover_env ''2021-05-04T10:00:01.000Z'' ''0xabc'')
   \<and> map_sum id transfer_id
         (recover_nep141 browser_env ''0.4527'' ''txA'' indexed_receipts no_options)
     \<noteq> map_sum id transfer_id
         (recover_nep141 browser_env ''0.9913'' ''txA'' indexed_receipts no_options)"
  by (simp add: recover_at recover_nep141_at js_slice_from_def js_index_def)

text \<open>
  C6, amended. The id of a recovered Ether transfer is the time of the clock at the
  call, and the id of a recovered NEAR transfer is the text of the random number drawn
  at the call, without its first two characters. Two recoveries of the same lock
  transaction against the same chains and indexer return records that are equal in
  every field except the id, which follows the clock or the draw of each call.
\<close>

theorem recover_id_from_clock_or_random:
  "(recover env now h = Inr t \<longrightarrow>
      transfer_id t = now
      \<and> recover env now' h = Inr (t \<lparr> transfer_id := now' \<rparr>))
   \<and> (recover_nep141 nenv rnd nh callIndexer opts = Inr nt \<longrightarrow>
      transfer_id nt = js_slice_from rnd 2
      \<and> recover_nep141 nenv rnd' nh callIndexer opts
          = Inr (nt \<lparr> transfer_id := js_slice_from rnd' 2 \<rparr>))"
proof (intro conjI impI)
  assume a: "recover env now h = Inr t"
  then obtain t0 where t0: "recover env [] h = Inr t0" and t: "t = t0 \<lparr> transfer_id := now \<rparr>"
    by (subst (asm) recover_transfer_id) (cases "recover env [] h", auto)
  from t show "transfer_id t = now" by simp
  from t0 t show "recover env now' h = Inr (t \<lparr> transfer_id := now' \<rparr>)"
    by (subst recover_transfer_id) simp
next
  assume a: "recover_nep141 nenv rnd nh callIndexer opts = Inr nt"
  then obtain t0 where t0: "recover_nep141 nenv [] nh callIndexer opts = Inr t0"
    and t: "nt = t0 \<lparr> transfer_id := js_slice_from rnd 2 \<rparr>"
    by (subst (asm) recover_nep141_transfer_id)
      (cases "recover_nep141 nenv [] nh callIndexer opts", auto)
  from t show "transfer_id nt = js_slice_from rnd 2" by simp
  from t0 t show "recover_nep141 nenv rnd' nh callIndexer opts
      = Inr (nt \<lparr> transfer_id := js_slice_from rnd' 2 \<rparr>)"
    by (subst recover_nep141_transfer_id) simp
qed

theorem recover_id_from_clock_or_random_witness:
  "recover recover_env ''2021-05-04T10:00:00.000Z'' ''0xabc''
     = Inr (locked_transfer \<lparr> completedConfirmations := 19 \<rparr>)
   \<and> transfer_id (locked_transfer \<lparr> completedConfirmations := 19 \<rparr>)
     = ''2021-05-04T10:00:00.000Z''
   \<and> recover recover_env ''2021-05-04T10:00:01.000Z'' ''0xabc''
     = Inr (locked_transfer
         \<lparr> completedConfirmations := 19, transfer_id := ''2021-05-04T10:00:01.000Z'' \<rparr>)
   \<and> recover_nep141 browser_env ''0.4527'' ''txA'' indexed_receipts no_options
     = Inr near_recovered_transfer
   \<and> transfer_id near_recovered_transfer = ''4527''
   \<and> recover_nep141 browser_env ''0.9913'' ''txA'' indexed_receipts no_options
     = Inr (near_recovered_transfer \<lparr> transfer_id := ''9913'' \<rparr>)"
proof -
  have a: "recover recover_env ''2021-05-04T10:00:00.000Z'' ''0xabc''
      = Inr (locked_transfer \<lparr> completedConfirmations := 19 \<rparr>)"
    by (simp add: recover_at) (simp add: locked_transfer_def)
  have b: "recover_nep141 browser_env ''0.4527'' ''txA'' indexed_receipts no_options
      = Inr near_recovered_transfer"
    by (simp add: recover_nep141_at js_slice_from_def js_index_def)
      (simp add: near_recovered_transfer_def near_pending_transfer_def)
  show ?thesis
    using recover_id_from_clock_or_random
      [of recover_env "''2021-05-04T10:00:00.000Z''" "''0xabc''"
          "locked_transfer \<lparr> completedConfirmations := 19 \<rparr>"
          "''2021-05-04T10:00:01.000Z''"
          browser_env "''0.4527''" "''txA''" indexed_receipts no_options
          near_recovered_transfer "''0.9913''"]
      a b
    by (simp add: js_slice_from_def js_index_def)
qed

subsection \<open>Batch discovery and reverted calls\<close>

text \<open>
  C7. Batch discovery should return no transfer whose outcome on the chain differs from
  the amount that the indexer claims. It drops the reverted call \<^verbatim>\<open>txB\<close> and the
  partially applied \<^verbatim>\<open>txC\<close> when the indexer claims 1000 for them, without an
  exception: only \<^verbatim>\<open>txA\<close> is returned. But the status of a reverted transaction has no
  success value, and the code then compares the amount with \<^verbatim>\<open>'0'\<close>: when the indexer
  claims the amount 0 for the reverted \<^verbatim>\<open>txB\<close>, \<^verbatim>\<open>findAllTransfers\<close> returns it as a
  complete transfer with no errors.
\<close>

theorem findAllTransfers_returns_reverted_call:
  "txStatus wallet_account ''txB'' ''alice.near''
     = Inr \<lparr> SuccessValue = None, block_hash = ''B2'' \<rparr>
   \<and> findAllTransfers browser_env (\<lambda>i. ''0.4527'') ''0'' ''latest'' ''alice.near''
         ''usdt.near'' indexed_feed no_options = Inr [near_found_transfer]
   \<and> findAllTransfers browser_env (\<lambda>i. ''0.4527'') ''0'' ''latest'' ''alice.near''
         ''usdt.near'' zero_feed no_options = Inr [near_reverted_transfer]
   \<and> lockHashes near_reverted_transfer = [''txB'']
   \<and> amount near_reverted_transfer = ''0''
   \<and> status near_reverted_transfer = COMPLETE
   \<and> errors near_reverted_transfer = []"
  by (simp add: findAllTransfers_def browser_env_def wallet_account_def indexed_feed_def
      zero_feed_def no_options_def near_found_transfer_def near_reverted_transfer_def
      auroraEvmAccount_of_def nearAccount_of_def resolve_metadata_def symbol_of_def
      decimals_of_def truthy_def candidates_def msg_pattern_def test_lower_hex40_def
      is_lower_hex_def transfer_of_tx_def successValue_of_def js_slice_def
      js_slice_from_def js_index_def enumerate_eq_zip upt_rec Let_def)

subsection \<open>A completed step that the dispatcher does not know\<close>

text \<open>
  C8. On an Ether transfer whose completed step is neither \<^verbatim>\<open>null\<close> nor the lock step,
  and on a NEAR transfer whose completed step is not \<^verbatim>\<open>null\<close>, both \<^verbatim>\<open>act\<close> and
  \<^verbatim>\<open>checkStatus\<close> throw the error of the \<^verbatim>\<open>default\<close> branch to the caller: no record is
  returned, so none is marked failed or given an error entry, and the URL parameters
  are left as they were.
\<close>

theorem unrecognized_step_throws:
  "(completedStep t \<noteq> None \<and> completedStep t \<noteq> Some LOCK \<longrightarrow>
      act env t
        = Inl (Thrown Error (''Don't know how to act on transfer: '' @ transfer_id t))
      \<and> checkStatus env t
        = Inl (Thrown Error (''Don't know how to checkStatus for transfer '' @ transfer_id t)))
   \<and> (completedStep nt \<noteq> None \<longrightarrow>
      act_nep141 nenv params nt
        = (Inl (Thrown Error
             (''Don't know how to act on transfer: '' @ JSON_stringify nenv nt)), params)
      \<and> checkStatus_nep141 nenv params nt
        = (Inl (Thrown Error
             (''Don't know how to checkStatus for transfer '' @ transfer_id nt)), params))"
  by (auto simp: act_def checkStatus_def act_nep141_def checkStatus_nep141_def
      split: option.splits)

theorem unrecognized_step_throws_witness:
  "completedStep finalized_transfer = Some MINT
   \<and> Some MINT \<noteq> Some LOCK
   \<and> act (synced_env 121 True) finalized_transfer
       = Inl (Thrown Error
           ''Don't know how to act on transfer: 2021-05-04T10:00:00.000Z'')
   \<and> checkStatus (synced_env 121 True) finalized_transfer
       = Inl (Thrown Error
           ''Don't know how to checkStatus for transfer 2021-05-04T10:00:00.000Z'')
   \<and> completedStep near_locked_transfer = Some LOCK_nep141
   \<and> act_nep141 browser_env redirected_params near_locked_transfer
       = (Inl (Thrown Error ''Don't know how to act on transfer: 4527''), redirected_params)
   \<and> checkStatus_nep141 browser_env redirected_params near_locked_transfer
       = (Inl (Thrown Error ''Don't know how to checkStatus for transfer 4527''),
          redirected_params)"
proof -
  have a: "completedStep finalized_transfer = Some MINT"
    and b: "Some MINT \<noteq> Some LOCK"
    and c: "completedStep near_locked_transfer = Some LOCK_nep141"
    and d: "transfer_id finalized_transfer = ''2021-05-04T10:00:00.000Z''"
    and e: "transfer_id near_locked_transfer = ''4527''"
    and f: "JSON_stringify browser_env near_locked_transfer = ''4527''"
    by (simp_all add: finalized_transfer_def locked_transfer_def near_locked_transfer_def
        near_pending_transfer_def browser_env_def MINT_def LOCK_def)
  show ?thesis
    using unrecognized_step_throws
      [of finalized_transfer "synced_env 121 True" near_locked_transfer browser_env
          redirected_params]
      a b c d e f
    by simp
qed

subsection \<open>What the calls keep of an Ether transfer\<close>

lemma call_keeps:
  assumes "(case c of Act \<Rightarrow> act env t | CheckStatus \<Rightarrow> checkStatus env t) = Inr t'"
  shows "mintHashes t' = mintHashes t"
    and "lock_receipt_recorded t \<Longrightarrow> lock_receipt_recorded t'"
  using assms
  by (cases c; auto simp: act_def checkStatus_def lock_receipt_recorded_def
      split: option.splits if_splits dest!: checkSync_Inr checkLock_Inr lock_Inr)+

lemma run_calls_keeps:
  assumes "run_calls cs t = Inr t'"
  shows "mintHashes t' = mintHashes t
       \<and> (lock_receipt_recorded t \<longrightarrow> lock_receipt_recorded t')"
  using assms
proof (induction cs arbitrary: t)
  case Nil
  then show ?case by simp
next
  case (Cons a cs)
  obtain c env where a: "a = (c, env)" by (cases a)
  from Cons.prems a obtain t1 where
    s: "(case c of Act \<Rightarrow> act env t | CheckStatus \<Rightarrow> checkStatus env t) = Inr t1"
    and r: "run_calls cs t1 = Inr t'"
    by (auto split: sum.splits)
  from call_keeps [OF s] Cons.IH [OF r] show ?case by simp
qed

lemma recover_Inr:
  assumes "recover env now h = Inr t"
  shows "\<exists>r. lockReceipts t = [r] \<and> mintHashes t = []
           \<and> (completedStep t = Some LOCK \<or> completedStep t = Some MINT)"
proof -
  from assms obtain t0 where c: "checkSync env t0 = Inr t"
    and l: "\<exists>r. lockReceipts t0 = [r]" and m: "mintHashes t0 = []"
    and s: "completedStep t0 = Some LOCK"
    by (simp add: recover_def Let_def split: option.splits sum.splits list.splits if_splits)
  from checkSync_Inr [OF c] l m s show ?thesis by auto
qed

subsection \<open>The lock receipt that \<^verbatim>\<open>checkSync\<close> reads\<close>

lemma checkStatus_replaced:
  "checkLock (dropped_env (Inr (Some \<lparr> tx_hash = ''0xdef'' \<rparr>))) pending_transfer
     = Inr replaced_transfer"
  "run_calls [(CheckStatus, dropped_env (Inr (Some \<lparr> tx_hash = ''0xdef'' \<rparr>)))]
     pending_transfer = Inr replaced_transfer"
  by (simp_all add: checkStatus_def checkLock_def replacementReceipt_def
      checkLockReceipt_def dropped_env_def pending_transfer_def replaced_transfer_def
      receipt_0xdef_def last_js_def Let_def)

text \<open>
  C9. \<^verbatim>\<open>checkSync\<close> first reads the block number of the last lock receipt. With no
  lock receipt the read throws a type error. With at least one, the index of the read is
  within the list, the read yields its last element, and \<^verbatim>\<open>checkSync\<close> goes on to the
  height of the light client: it throws what that lookup throws and, while the
  confirmations do not exceed those needed, returns the record in progress. The records
  that \<^verbatim>\<open>act\<close> and \<^verbatim>\<open>checkStatus\<close> route to \<^verbatim>\<open>checkSync\<close> have a lock receipt:
  \<^verbatim>\<open>checkLock\<close> appends one whenever it sets the completed step to the lock, \<^verbatim>\<open>recover\<close>
  returns a record with exactly one, and every sequence of calls keeps the property
  that a record at the lock step has a lock receipt.
\<close>

theorem checkSync_reads_last_lock_receipt:
  "(lockReceipts t = [] \<longrightarrow> checkSync env t = Inl (undefined_property ''blockNumber''))
   \<and> (lockReceipts t \<noteq> [] \<longrightarrow>
        length (lockReceipts t) - 1 < length (lockReceipts t)
        \<and> last_js (lockReceipts t) = Some (last (lockReceipts t))
        \<and> (\<forall>e. ethOnNearSyncHeight env = Inl e \<longrightarrow> checkSync env t = Inl e)
        \<and> (\<forall>syncedTo. ethOnNearSyncHeight env = Inr syncedTo
              \<and> max 0 (syncedTo - blockNumber (last (lockReceipts t)))
                  \<le> neededConfirmations t \<longrightarrow>
              checkSync env t = Inr (t
                \<lparr> completedConfirmations :=
                    max 0 (syncedTo - blockNumber (last (lockReceipts t))),
                  status := IN_PROGRESS \<rparr>)))
   \<and> (checkLock env' u = Inr u' \<and> completedStep u \<noteq> Some LOCK
        \<and> completedStep u' = Some LOCK \<longrightarrow>
        (\<exists>r. lockReceipts u' = lockReceipts u @ [r]))
   \<and> (recover env'' now h = Inr v \<longrightarrow>
        (\<exists>r. lockReceipts v = [r]) \<and> lock_receipt_recorded v)
   \<and> (lock_receipt_recorded w \<and> run_calls cs w = Inr w' \<longrightarrow> lock_receipt_recorded w')"
proof (intro conjI impI)
  assume "lockReceipts t = []"
  then show "checkSync env t = Inl (undefined_property ''blockNumber'')"
    by (simp add: checkSync_def last_js_def)
next
  assume "lockReceipts t \<noteq> []"
  then show "length (lockReceipts t) - 1 < length (lockReceipts t)" by simp
next
  assume "lockReceipts t \<noteq> []"
  then show l: "last_js (lockReceipts t) = Some (last (lockReceipts t))"
    by (simp add: last_js_Some)
next
  assume "lockReceipts t \<noteq> []"
  then have l: "last_js (lockReceipts t) = Some (last (lockReceipts t))"
    by (simp add: last_js_Some)
  then show "\<forall>e. ethOnNearSyncHeight env = Inl e \<longrightarrow> checkSync env t = Inl e"
    by (simp add: checkSync_def)
next
  assume "lockReceipts t \<noteq> []"
  then have l: "last_js (lockReceipts t) = Some (last (lockReceipts t))"
    by (simp add: last_js_Some)
  then show "\<forall>syncedTo. ethOnNearSyncHeight env = Inr syncedTo
              \<and> max 0 (syncedTo - blockNumber (last (lockReceipts t)))
                  \<le> neededConfirmations t \<longrightarrow>
              checkSync env t = Inr (t
                \<lparr> completedConfirmations :=
                    max 0 (syncedTo - blockNumber (last (lockReceipts t))),
                  status := IN_PROGRESS \<rparr>)"
    by (auto simp: checkSync_def Let_def)
next
  assume "checkLock env' u = Inr u' \<and> completedStep u \<noteq> Some LOCK
        \<and> completedStep u' = Some LOCK"
  then show "\<exists>r. lockReceipts u' = lockReceipts u @ [r]"
    by (auto dest!: checkLock_Inr)
next
  assume "recover env'' now h = Inr v"
  from recover_Inr [OF this] show "\<exists>r. lockReceipts v = [r]" by blast
next
  assume "recover env'' now h = Inr v"
  from recover_Inr [OF this] show "lock_receipt_recorded v"
    by (auto simp: lock_receipt_recorded_def)
next
  assume "lock_receipt_recorded w \<and> run_calls cs w = Inr w'"
  then show "lock_receipt_recorded w'"
    using run_calls_keeps [of cs w w'] by simp
qed

theorem checkSync_reads_last_lock_receipt_witness:
  "lockReceipts pending_transfer = []
   \<and> checkSync (synced_env 119 True) pending_transfer
       = Inl (undefined_property ''blockNumber'')
   \<and> lockReceipts locked_transfer
       = [\<lparr> blockNumber = 100, receipt_status = True, transactionHash = ''0xabc'' \<rparr>]
   \<and> checkSync unreachable_env locked_transfer = Inl (Thrown Error ''timeout'')
   \<and> checkSync (synced_env 119 True) locked_transfer
       = Inr (locked_transfer \<lparr> completedConfirmations := 19, status := IN_PROGRESS \<rparr>)
   \<and> completedStep pending_transfer = None
   \<and> checkLock (dropped_env (Inr (Some \<lparr> tx_hash = ''0xdef'' \<rparr>))) pending_transfer
       = Inr replaced_transfer
   \<and> completedStep replaced_transfer = Some LOCK
   \<and> lockReceipts replaced_transfer = [receipt_0xdef]
   \<and> recover recover_env ''2021-05-04T10:00:00.000Z'' ''0xabc''
       = Inr (locked_transfer \<lparr> completedConfirmations := 19 \<rparr>)
   \<and> lock_receipt_recorded pending_transfer
   \<and> run_calls [(CheckStatus, dropped_env (Inr (Some \<lparr> tx_hash = ''0xdef'' \<rparr>)))]
         pending_transfer = Inr replaced_transfer
   \<and> lock_receipt_recorded replaced_transfer
   \<and> run_calls [(Act, synced_env 119 True)] replaced_transfer
       = Inr (replaced_transfer \<lparr> completedConfirmations := 19 \<rparr>)
   \<and> lock_receipt_recorded (replaced_transfer \<lparr> completedConfirmations := 19 \<rparr>)"
proof -
  have again: "run_calls [(Act, synced_env 119 True)] replaced_transfer
       = Inr (replaced_transfer \<lparr> completedConfirmations := 19 \<rparr>)"
    by (simp add: act_def checkSync_def synced_env_def replaced_transfer_def
        pending_transfer_def receipt_0xdef_def last_js_def Let_def)
  let ?found = "dropped_env (Inr (Some \<lparr> tx_hash = ''0xdef'' \<rparr>))"
  have rec: "recover recover_env ''2021-05-04T10:00:00.000Z'' ''0xabc''
      = Inr (locked_transfer \<lparr> completedConfirmations := 19 \<rparr>)"
    by (simp add: recover_at) (simp add: locked_transfer_def)
  have facts: "lockReceipts pending_transfer = []"
    "lockReceipts locked_transfer
       = [\<lparr> blockNumber = 100, receipt_status = True, transactionHash = ''0xabc'' \<rparr>]"
    "completedStep pending_transfer = None"
    "completedStep replaced_transfer = Some LOCK"
    "lockReceipts replaced_transfer = [receipt_0xdef]"
    "neededConfirmations locked_transfer = 20"
    "ethOnNearSyncHeight unreachable_env = Inl (Thrown Error ''timeout'')"
    "ethOnNearSyncHeight (synced_env 119 True) = Inr 119"
    "lock_receipt_recorded pending_transfer"
    by (simp_all add: pending_transfer_def locked_transfer_def replaced_transfer_def
        unreachable_env_def synced_env_def lock_receipt_recorded_def)
  show ?thesis
    using checkSync_reads_last_lock_receipt
      [where t = pending_transfer and env = "synced_env 119 True"
         and env' = ?found and u = pending_transfer and u' = replaced_transfer
         and env'' = recover_env and now = "''2021-05-04T10:00:00.000Z''"
         and h = "''0xabc''" and v = "locked_transfer \<lparr> completedConfirmations := 19 \<rparr>"
         and w = pending_transfer and w' = replaced_transfer
         and cs = "[(CheckStatus, ?found)]"]
      checkSync_reads_last_lock_receipt
      [where t = locked_transfer and env = "synced_env 119 True"
         and env' = ?found and u = pending_transfer and u' = replaced_transfer
         and env'' = recover_env and now = "''2021-05-04T10:00:00.000Z''"
         and h = "''0xabc''" and v = "locked_transfer \<lparr> completedConfirmations := 19 \<rparr>"
         and w = pending_transfer and w' = replaced_transfer
         and cs = "[(CheckStatus, ?found)]"]
      checkSync_reads_last_lock_receipt
      [where t = locked_transfer and env = unreachable_env
         and env' = ?found and u = pending_transfer and u' = replaced_transfer
         and env'' = recover_env and now = "''2021-05-04T10:00:00.000Z''"
         and h = "''0xabc''" and v = "locked_transfer \<lparr> completedConfirmations := 19 \<rparr>"
         and w = replaced_transfer
         and w' = "replaced_transfer \<lparr> completedConfirmations := 19 \<rparr>"
         and cs = "[(Act, synced_env 119 True)]"]
      rec checkStatus_replaced again
    by (simp add: facts lock_receipt_recorded_def)
qed

subsection \<open>Finalized by the relayer\<close>

text \<open>
  C10. When the confirmations exceed those needed and the registry reports the proof
  used, \<^verbatim>\<open>checkSync\<close> returns the record complete at the mint step, with
  \<^verbatim>\<open>Transfer already finalized.\<close> appended to \<open>errors\<close> and \<open>mintHashes\<close> as it was
  (empty if it was empty): a record that is not failed has a non-empty \<open>errors\<close>. No
  sequence of calls changes \<open>mintHashes\<close>, and \<^verbatim>\<open>recover\<close> returns it empty: the hash of
  the relayer's mint transaction is never recorded.
\<close>

theorem checkSync_finalized_by_relayer:
  "(last_js (lockReceipts t) = Some r
    \<and> ethOnNearSyncHeight env = Inr syncedTo
    \<and> max 0 (syncedTo - blockNumber r) > neededConfirmations t
    \<and> findProof env (transactionHash r) = Inr usedProof
    \<and> getNearAccount env = Inr u
    \<and> is_used_proof env usedProof = Inr True \<longrightarrow>
      (\<exists>t'. checkSync env t = Inr t'
         \<and> status t' = COMPLETE
         \<and> completedStep t' = Some MINT
         \<and> errors t' = errors t @ [''Transfer already finalized.'']
         \<and> errors t' \<noteq> [] \<and> status t' \<noteq> FAILED
         \<and> mintHashes t' = mintHashes t
         \<and> (mintHashes t = [] \<longrightarrow> mintHashes t' = [])))
   \<and> (run_calls cs w = Inr w' \<longrightarrow> mintHashes w' = mintHashes w)
   \<and> (recover env' now h = Inr v \<longrightarrow> mintHashes v = [])"
proof (intro conjI impI)
  assume "last_js (lockReceipts t) = Some r
    \<and> ethOnNearSyncHeight env = Inr syncedTo
    \<and> max 0 (syncedTo - blockNumber r) > neededConfirmations t
    \<and> findProof env (transactionHash r) = Inr usedProof
    \<and> getNearAccount env = Inr u
    \<and> is_used_proof env usedProof = Inr True"
  then have "checkSync env t = Inr (t
      \<lparr> completedStep := Some MINT,
        completedConfirmations := max 0 (syncedTo - blockNumber r),
        status := COMPLETE,
        errors := errors t @ [''Transfer already finalized.''] \<rparr>)"
    by (auto simp: checkSync_def Let_def)
  then show "\<exists>t'. checkSync env t = Inr t'
         \<and> status t' = COMPLETE
         \<and> completedStep t' = Some MINT
         \<and> errors t' = errors t @ [''Transfer already finalized.'']
         \<and> errors t' \<noteq> [] \<and> status t' \<noteq> FAILED
         \<and> mintHashes t' = mintHashes t
         \<and> (mintHashes t = [] \<longrightarrow> mintHashes t' = [])"
    by simp
next
  assume "run_calls cs w = Inr w'"
  from run_calls_keeps [OF this] show "mintHashes w' = mintHashes w" by simp
next
  assume "recover env' now h = Inr v"
  from recover_Inr [OF this] show "mintHashes v = []" by blast
qed

theorem checkSync_finalized_by_relayer_witness:
  "checkSync (synced_env 121 True) locked_transfer = Inr finalized_transfer
   \<and> status finalized_transfer = COMPLETE
   \<and> completedStep finalized_transfer = Some MINT
   \<and> errors finalized_transfer = [''Transfer already finalized.'']
   \<and> mintHashes finalized_transfer = []
   \<and> run_calls polled_calls pending_transfer = Inr finalized_after_replacement
   \<and> mintHashes finalized_after_replacement = []
   \<and> recover recover_env ''2021-05-04T10:00:00.000Z'' ''0xabc''
       = Inr (locked_transfer \<lparr> completedConfirmations := 19 \<rparr>)
   \<and> mintHashes (locked_transfer \<lparr> completedConfirmations := 19 \<rparr>) = []"
proof -
  let ?r = "\<lparr> blockNumber = 100, receipt_status = True, transactionHash = ''0xabc'' \<rparr>"
  have rec: "recover recover_env ''2021-05-04T10:00:00.000Z'' ''0xabc''
      = Inr (locked_transfer \<lparr> completedConfirmations := 19 \<rparr>)"
    by (simp add: recover_at) (simp add: locked_transfer_def)
  have fin: "checkSync (synced_env 121 True) locked_transfer = Inr finalized_transfer"
    by (simp add: checkSync_def synced_env_def locked_transfer_def finalized_transfer_def
        last_js_def Let_def)
  have facts: "last_js (lockReceipts locked_transfer) = Some ?r"
    "ethOnNearSyncHeight (synced_env 121 True) = Inr 121"
    "neededConfirmations locked_transfer = 20"
    "findProof (synced_env 121 True) ''0xabc'' = Inr ''proof of 0xabc''"
    "getNearAccount (synced_env 121 True) = Inr ()"
    "is_used_proof (synced_env 121 True) ''proof of 0xabc'' = Inr True"
    "status finalized_transfer = COMPLETE"
    "completedStep finalized_transfer = Some MINT"
    "errors finalized_transfer = [''Transfer already finalized.'']"
    "mintHashes finalized_transfer = []"
    "mintHashes pending_transfer = []"
    "mintHashes locked_transfer = []"
    by (simp_all add: locked_transfer_def pending_transfer_def finalized_transfer_def
        synced_env_def last_js_def)
  show ?thesis
    using checkSync_finalized_by_relayer
      [where t = locked_transfer and r = "?r" and env = "synced_env 121 True"
         and syncedTo = 121 and usedProof = "''proof of 0xabc''" and u = "()"
         and cs = polled_calls and w = pending_transfer
         and w' = finalized_after_replacement and env' = recover_env
         and now = "''2021-05-04T10:00:00.000Z''" and h = "''0xabc''"
         and v = "locked_transfer \<lparr> completedConfirmations := 19 \<rparr>"]
      rec fin run_calls_polled
    by (simp add: facts)
qed

end
